theory Spec2Isabelle
  imports Main "HOL-Library.Word" "HOL-Library.Sublist"
begin

section \<open>Host values: strings, JSON, fetch\<close>

text \<open>
  A JavaScript string is a sequence of UTF-16 code units. ASCII literals of the source
  are written with \<open>js\<close>; the emoji and bullets of the source are written as their code
  units.
\<close>

type_synonym jsstring = "16 word list"

definition js :: "string \<Rightarrow> jsstring" where
  "js cs = map of_char cs"

text \<open>
  \<^verbatim>\<open>String.prototype.trim\<close> strips the code points of ECMAScript's WhiteSpace and
  LineTerminator productions from both ends. All of them lie in the basic plane.
\<close>

definition isWhiteSpace :: "16 word \<Rightarrow> bool" where
  "isWhiteSpace u \<longleftrightarrow>
     u \<in> set [0x0009, 0x000A, 0x000B, 0x000C, 0x000D, 0x0020, 0x00A0, 0x1680,
              0x2000, 0x2001, 0x2002, 0x2003, 0x2004, 0x2005, 0x2006, 0x2007,
              0x2008, 0x2009, 0x200A, 0x2028, 0x2029, 0x202F, 0x205F, 0x3000, 0xFEFF]"

definition trim :: "jsstring \<Rightarrow> jsstring" where
  "trim s = rev (dropWhile isWhiteSpace (rev (dropWhile isWhiteSpace s)))"

text \<open>
  The value of a parsed JSON body (\<^verbatim>\<open>result: any\<close>). Numbers are integers here; the
  code only compares a count with zero and prints values.
\<close>

datatype json =
    JNull
  | JBool bool
  | JNumber int
  | JString jsstring
  | JArray "json list"
  | JObject "(jsstring \<times> json) list"

text \<open>
  What a \<^verbatim>\<open>fetch\<close> call settles to: the promise rejects, or a response arrives with a
  status and a body; the body is \<open>None\<close> when \<^verbatim>\<open>response.json()\<close> rejects.
  \<^verbatim>\<open>response.ok\<close> is true for the statuses 200 to 299.
\<close>

datatype 'a fetch_result = Rejected | Responded nat "'a option"

definition ok :: "nat \<Rightarrow> bool" where
  "ok status \<longleftrightarrow> 200 \<le> status \<and> status \<le> 299"

datatype exn = NetworkError | HttpError nat | SyntaxError

text \<open>
  The host supplies what the component does not compute itself: the identifier and the
  time of the message appended at a position of the log (\<^verbatim>\<open>Date.now()\<close>,
  \<^verbatim>\<open>Math.random()\<close>, \<^verbatim>\<open>new Date()\<close>), and \<^verbatim>\<open>JSON.stringify(v, null, 2)\<close>.
\<close>

record host =
  fresh :: "nat \<Rightarrow> jsstring \<times> nat"
  stringify :: "json \<Rightarrow> jsstring"

section \<open>Data model of the component\<close>

datatype message_type = User | Bot | Query | Result

text \<open>\<^verbatim>\<open>interface Message\<close>, and \<^verbatim>\<open>Omit<Message, 'id' | 'timestamp'>\<close> as \<open>draft\<close>.\<close>

record message =
  m_id :: jsstring
  m_type :: message_type
  m_content :: jsstring
  m_timestamp :: nat
  m_query :: "jsstring option"
  m_result :: "json option"
  m_answer :: "jsstring option"

record draft =
  d_type :: message_type
  d_content :: jsstring
  d_query :: "jsstring option"
  d_result :: "json option"
  d_answer :: "jsstring option"

text \<open>\<^verbatim>\<open>interface ChatResponse\<close>, \<^verbatim>\<open>ExecuteResponse\<close>, \<^verbatim>\<open>HealthResponse\<close>.\<close>

record chat_response =
  cr_success :: bool
  cr_question :: jsstring
  cr_query :: jsstring
  cr_error :: "jsstring option"

record execute_response =
  er_success :: bool
  er_question :: jsstring
  er_query :: jsstring
  er_result :: json
  er_answer :: jsstring
  er_error :: "jsstring option"

record health_response =
  hr_status :: jsstring
  hr_message :: jsstring
  hr_mongodb_connected :: bool
  hr_collections_count :: "int option"

text \<open>The value of \<^verbatim>\<open>pendingQuery\<close>, also the body sent to the execute endpoint.\<close>

record pending_query =
  pq_question :: jsstring
  pq_query :: jsstring

datatype connection_status = Checking | Connected | Error

text \<open>The \<^verbatim>\<open>useState\<close> cells of \<^verbatim>\<open>ChatInterface\<close>.\<close>

record state =
  messages :: "message list"
  input :: jsstring
  isLoading :: bool
  pendingQuery :: "pending_query option"
  copiedStates :: "jsstring \<rightharpoonup> bool"
  connectionStatus :: connection_status

section \<open>The literals of the source\<close>

definition welcome_content :: jsstring where
  "welcome_content =
     js ''Welcome to your AI-powered MongoDB assistant! '' @ [0xD83D, 0xDE80] @ [0x0A, 0x0A]
     @ js ''I can help you query your database using natural language. ''
     @ js ''Just ask me anything about your data, and I'' @ [0x27]
     @ js ''ll generate the perfect MongoDB query for you.'' @ [0x0A, 0x0A]
     @ js ''Examples:'' @ [0x0A]
     @ [0x2022] @ js '' '' @ [0x22] @ js ''Show me all users older than 25'' @ [0x22, 0x0A]
     @ [0x2022] @ js '' '' @ [0x22] @ js ''Count orders by status'' @ [0x22, 0x0A]
     @ [0x2022] @ js '' '' @ [0x22] @ js ''Find products with price greater than $100'' @ [0x22]"

definition empty_database_warning :: jsstring where
  "empty_database_warning =
     [0x26A0, 0xFE0F] @ js '' Warning: Your database appears to be empty. ''
     @ js ''Please add some data to start querying.''"

definition connection_error_notice :: jsstring where
  "connection_error_notice =
     [0x274C] @ js '' Connection Error: Unable to connect to the database. ''
     @ js ''Please check your server configuration.''"

definition server_error_notice :: jsstring where
  "server_error_notice =
     [0x274C] @ js '' Server Error: Unable to connect to the API server. ''
     @ js ''Please make sure the backend is running on port 5000.''"

definition generated_query_content :: "jsstring \<Rightarrow> jsstring" where
  "generated_query_content q =
     js ''Generated MongoDB Query:'' @ [0x0A] @ js ''```python'' @ [0x0A] @ q @ [0x0A] @ js ''```''"

definition generate_error_content :: "jsstring \<Rightarrow> jsstring" where
  "generate_error_content e = [0x274C] @ js '' Error: '' @ e"

definition processing_error_notice :: jsstring where
  "processing_error_notice =
     [0x274C] @ js '' Sorry, I encountered an error while processing your request. ''
     @ js ''Please check if the server is running and try again.''"

definition cancelled_notice :: jsstring where
  "cancelled_notice =
     [0x274C] @ js '' Query execution cancelled. Feel free to ask another question!''"

definition query_result_content :: "jsstring \<Rightarrow> jsstring" where
  "query_result_content r =
     js ''Query Result:'' @ [0x0A] @ js ''```json'' @ [0x0A] @ r @ [0x0A] @ js ''```''"

definition answer_content :: "jsstring \<Rightarrow> jsstring" where
  "answer_content a = [0x2705] @ js '' '' @ a"

definition execute_error_content :: "jsstring \<Rightarrow> jsstring" where
  "execute_error_content e = [0x274C] @ js '' Error executing query: '' @ e"

definition executing_error_notice :: jsstring where
  "executing_error_notice =
     [0x274C] @ js '' Sorry, I encountered an error while executing the query. ''
     @ js ''Please try again.''"

text \<open>\<^verbatim>\<open>e || d\<close> on an optional string: an absent or empty \<open>e\<close> is falsy.\<close>

definition or_default :: "jsstring option \<Rightarrow> jsstring \<Rightarrow> jsstring" where
  "or_default e d = (case e of None \<Rightarrow> d | Some x \<Rightarrow> if x = [] then d else x)"

section \<open>The component\<close>

definition initial :: "nat \<Rightarrow> state" where
  "initial t0 =
     \<lparr>messages = [\<lparr>m_id = js ''1'', m_type = Bot, m_content = welcome_content,
                    m_timestamp = t0, m_query = None, m_result = None, m_answer = None\<rparr>],
      input = [], isLoading = False, pendingQuery = None, copiedStates = Map.empty,
      connectionStatus = Checking\<rparr>"

definition newMessage :: "host \<Rightarrow> nat \<Rightarrow> draft \<Rightarrow> message" where
  "newMessage h n d =
     \<lparr>m_id = fst (fresh h n), m_type = d_type d, m_content = d_content d,
      m_timestamp = snd (fresh h n), m_query = d_query d, m_result = d_result d,
      m_answer = d_answer d\<rparr>"

definition addMessage :: "host \<Rightarrow> draft \<Rightarrow> state \<Rightarrow> state" where
  "addMessage h d s = s\<lparr>messages := messages s @ [newMessage h (length (messages s)) d]\<rparr>"

definition notice :: "jsstring \<Rightarrow> draft" where
  "notice c = \<lparr>d_type = Bot, d_content = c, d_query = None, d_result = None, d_answer = None\<rparr>"

subsection \<open>checkConnection\<close>

text \<open>The body of the \<^verbatim>\<open>try\<close> block: \<open>Inl\<close> is a thrown exception. The status of the
  response is not looked at.\<close>

definition checkConnection_try ::
  "host \<Rightarrow> health_response fetch_result \<Rightarrow> state \<Rightarrow> exn + state" where
  "checkConnection_try h r s =
     (case r of
        Rejected \<Rightarrow> Inl NetworkError
      | Responded st body \<Rightarrow>
          (case body of
             None \<Rightarrow> Inl SyntaxError
           | Some data \<Rightarrow>
               if hr_status data = js ''healthy'' \<and> hr_mongodb_connected data then
                 (if hr_collections_count data = Some 0
                  then Inr (addMessage h (notice empty_database_warning)
                              (s\<lparr>connectionStatus := Connected\<rparr>))
                  else Inr (s\<lparr>connectionStatus := Connected\<rparr>))
               else Inr (addMessage h (notice connection_error_notice)
                           (s\<lparr>connectionStatus := Error\<rparr>))))"

definition checkConnection :: "host \<Rightarrow> health_response fetch_result \<Rightarrow> state \<Rightarrow> state" where
  "checkConnection h r s =
     (case checkConnection_try h r s of
        Inr s' \<Rightarrow> s'
      | Inl e \<Rightarrow> addMessage h (notice server_error_notice) (s\<lparr>connectionStatus := Error\<rparr>))"

subsection \<open>handleSendMessage\<close>

text \<open>Up to the \<^verbatim>\<open>await fetch\<close>: the new state and the question sent, if any.\<close>

definition handleSendMessage_start :: "host \<Rightarrow> state \<Rightarrow> state \<times> jsstring option" where
  "handleSendMessage_start h s =
     (if trim (input s) = [] \<or> isLoading s \<or> connectionStatus s \<noteq> Connected then (s, None)
      else
        (addMessage h \<lparr>d_type = User, d_content = trim (input s), d_query = None,
                       d_result = None, d_answer = None\<rparr>
           (s\<lparr>input := [], isLoading := True\<rparr>),
         Some (trim (input s))))"

definition handleSendMessage_try ::
  "host \<Rightarrow> chat_response fetch_result \<Rightarrow> state \<Rightarrow> exn + state" where
  "handleSendMessage_try h r s =
     (case r of
        Rejected \<Rightarrow> Inl NetworkError
      | Responded st body \<Rightarrow>
          if \<not> ok st then Inl (HttpError st)
          else
            (case body of
               None \<Rightarrow> Inl SyntaxError
             | Some data \<Rightarrow>
                 if cr_success data then
                   Inr ((addMessage h \<lparr>d_type = Query,
                                        d_content = generated_query_content (cr_query data),
                                        d_query = Some (cr_query data),
                                        d_result = None, d_answer = None\<rparr> s)
                        \<lparr>pendingQuery := Some \<lparr>pq_question = cr_question data,
                                                pq_query = cr_query data\<rparr>\<rparr>)
                 else
                   Inr (addMessage h
                          (notice (generate_error_content
                                     (or_default (cr_error data) (js ''Failed to generate query''))))
                          s)))"

text \<open>From the settled fetch to the end: \<^verbatim>\<open>catch\<close> and \<^verbatim>\<open>finally\<close>.\<close>

definition handleSendMessage_finish ::
  "host \<Rightarrow> chat_response fetch_result \<Rightarrow> state \<Rightarrow> state" where
  "handleSendMessage_finish h r s =
     (case handleSendMessage_try h r s of
        Inr s' \<Rightarrow> s'
      | Inl e \<Rightarrow> addMessage h (notice processing_error_notice) s)\<lparr>isLoading := False\<rparr>"

text \<open>The whole call, with the fetch settling to \<open>r\<close>.\<close>

definition handleSendMessage :: "host \<Rightarrow> chat_response fetch_result \<Rightarrow> state \<Rightarrow> state" where
  "handleSendMessage h r s =
     (case handleSendMessage_start h s of
        (s', None) \<Rightarrow> s'
      | (s', Some q) \<Rightarrow> handleSendMessage_finish h r s')"

subsection \<open>handleExecuteQuery\<close>

definition handleExecuteQuery_start ::
  "host \<Rightarrow> bool \<Rightarrow> state \<Rightarrow> state \<times> pending_query option" where
  "handleExecuteQuery_start h approve s =
     (case pendingQuery s of
        None \<Rightarrow> (s, None)
      | Some p \<Rightarrow>
          if \<not> approve then
            ((addMessage h (notice cancelled_notice) s)\<lparr>pendingQuery := None\<rparr>, None)
          else
            (s\<lparr>isLoading := True\<rparr>,
             Some \<lparr>pq_question = pq_question p, pq_query = pq_query p\<rparr>))"

definition resultDisplay :: "host \<Rightarrow> json \<Rightarrow> jsstring" where
  "resultDisplay h v =
     (case v of
        JArray xs \<Rightarrow> if length xs = 0 then js ''No results found'' else stringify h v
      | _ \<Rightarrow> stringify h v)"

definition handleExecuteQuery_try ::
  "host \<Rightarrow> execute_response fetch_result \<Rightarrow> state \<Rightarrow> exn + state" where
  "handleExecuteQuery_try h r s =
     (case r of
        Rejected \<Rightarrow> Inl NetworkError
      | Responded st body \<Rightarrow>
          if \<not> ok st then Inl (HttpError st)
          else
            (case body of
               None \<Rightarrow> Inl SyntaxError
             | Some data \<Rightarrow>
                 if er_success data then
                   Inr (addMessage h \<lparr>d_type = Bot,
                                       d_content = answer_content (er_answer data),
                                       d_query = None, d_result = None,
                                       d_answer = Some (er_answer data)\<rparr>
                         (addMessage h \<lparr>d_type = Result,
                                         d_content = query_result_content
                                                       (resultDisplay h (er_result data)),
                                         d_query = None, d_result = Some (er_result data),
                                         d_answer = None\<rparr> s))
                 else
                   Inr (addMessage h
                          (notice (execute_error_content
                                     (or_default (er_error data) (js ''Unknown error''))))
                          s)))"

definition handleExecuteQuery_finish ::
  "host \<Rightarrow> execute_response fetch_result \<Rightarrow> state \<Rightarrow> state" where
  "handleExecuteQuery_finish h r s =
     (case handleExecuteQuery_try h r s of
        Inr s' \<Rightarrow> s'
      | Inl e \<Rightarrow> addMessage h (notice executing_error_notice) s)
     \<lparr>isLoading := False, pendingQuery := None\<rparr>"

definition handleExecuteQuery ::
  "host \<Rightarrow> bool \<Rightarrow> execute_response fetch_result \<Rightarrow> state \<Rightarrow> state" where
  "handleExecuteQuery h approve r s =
     (case handleExecuteQuery_start h approve s of
        (s', None) \<Rightarrow> s'
      | (s', Some p) \<Rightarrow> handleExecuteQuery_finish h r s')"

text \<open>
  The two approval buttons are rendered only while \<^verbatim>\<open>pendingQuery\<close> is set and carry
  \<^verbatim>\<open>disabled={isLoading}\<close>; a disabled button does not call its handler.
\<close>

definition approvalButton_onClick ::
  "host \<Rightarrow> bool \<Rightarrow> execute_response fetch_result \<Rightarrow> state \<Rightarrow> state" where
  "approvalButton_onClick h approve r s =
     (if pendingQuery s \<noteq> None \<and> \<not> isLoading s then handleExecuteQuery h approve r s else s)"

section \<open>A session: handler calls and settling fetches, interleaved\<close>

text \<open>
  A handler runs up to its \<^verbatim>\<open>await\<close>; its fetch settles later, and other handlers may
  be called in between. A configuration holds the component's state and the fetches in
  flight. Two history maps record, for a position of the log, what the code did when
  it appended the message there: \<open>proposal_of\<close> the value given to \<^verbatim>\<open>pendingQuery\<close>
  together with a \<open>Query\<close> message, \<open>request_of\<close> the body that had been sent to the
  execute endpoint for a \<open>Result\<close> message. The handlers are called directly, so the
  sessions include those that the disabled input and buttons of the page do not allow.
\<close>

record config =
  ui :: state
  health_inflight :: nat
  chat_inflight :: "jsstring list"
  execute_inflight :: "pending_query list"
  proposal_of :: "nat \<rightharpoonup> pending_query"
  request_of :: "nat \<rightharpoonup> pending_query"

text \<open>The parsed body of a fetch that settled with an ok status.\<close>

definition ok_body :: "'a fetch_result \<Rightarrow> 'a option" where
  "ok_body r = (case r of Rejected \<Rightarrow> None | Responded st body \<Rightarrow> if ok st then body else None)"

datatype action =
    SetInput jsstring
  | HealthSettles "health_response fetch_result"
  | CallSendMessage
  | ChatSettles jsstring "chat_response fetch_result"
  | CallExecuteQuery bool
  | ExecuteSettles pending_query "execute_response fetch_result"

text \<open>The mount effect calls \<^verbatim>\<open>checkConnection\<close> once, so one health fetch is in flight.\<close>

definition initial_config :: "nat \<Rightarrow> config" where
  "initial_config t0 =
     \<lparr>ui = initial t0, health_inflight = 1, chat_inflight = [], execute_inflight = [],
      proposal_of = Map.empty, request_of = Map.empty\<rparr>"

fun step :: "host \<Rightarrow> action \<Rightarrow> config \<Rightarrow> config" where
  "step h (SetInput t) c = c\<lparr>ui := (ui c)\<lparr>input := t\<rparr>\<rparr>"
| "step h (HealthSettles r) c =
     (if health_inflight c = 0 then c
      else c\<lparr>ui := checkConnection h r (ui c), health_inflight := health_inflight c - 1\<rparr>)"
| "step h CallSendMessage c =
     (case handleSendMessage_start h (ui c) of
        (s', None) \<Rightarrow> c\<lparr>ui := s'\<rparr>
      | (s', Some q) \<Rightarrow> c\<lparr>ui := s', chat_inflight := q # chat_inflight c\<rparr>)"
| "step h (ChatSettles q r) c =
     (if q \<notin> set (chat_inflight c) then c
      else c\<lparr>ui := handleSendMessage_finish h r (ui c),
             chat_inflight := remove1 q (chat_inflight c),
             proposal_of :=
               (case ok_body r of
                  None \<Rightarrow> proposal_of c
                | Some data \<Rightarrow>
                    if cr_success data
                    then (proposal_of c)(length (messages (ui c)) \<mapsto>
                           \<lparr>pq_question = cr_question data, pq_query = cr_query data\<rparr>)
                    else proposal_of c)\<rparr>)"
| "step h (CallExecuteQuery approve) c =
     (case handleExecuteQuery_start h approve (ui c) of
        (s', None) \<Rightarrow> c\<lparr>ui := s'\<rparr>
      | (s', Some p) \<Rightarrow> c\<lparr>ui := s', execute_inflight := p # execute_inflight c\<rparr>)"
| "step h (ExecuteSettles p r) c =
     (if p \<notin> set (execute_inflight c) then c
      else c\<lparr>ui := handleExecuteQuery_finish h r (ui c),
             execute_inflight := remove1 p (execute_inflight c),
             request_of :=
               (case ok_body r of
                  None \<Rightarrow> request_of c
                | Some data \<Rightarrow>
                    if er_success data
                    then (request_of c)(length (messages (ui c)) \<mapsto> p)
                    else request_of c)\<rparr>)"

fun run :: "host \<Rightarrow> action list \<Rightarrow> config \<Rightarrow> config" where
  "run h [] c = c"
| "run h (a # as) c = run h as (step h a c)"

section \<open>Outcome classes and concrete inputs\<close>

text \<open>
  The outcomes of the two POST calls that are not a reported success: the fetch rejects,
  the status is not ok, the body does not parse (all three leave no \<open>ok_body\<close>), or the
  body reports \<^verbatim>\<open>success: false\<close>.
\<close>

definition generation_fails :: "chat_response fetch_result \<Rightarrow> bool" where
  "generation_fails r \<longleftrightarrow> (case ok_body r of None \<Rightarrow> True | Some d \<Rightarrow> \<not> cr_success d)"

definition execution_fails :: "execute_response fetch_result \<Rightarrow> bool" where
  "execution_fails r \<longleftrightarrow> (case ok_body r of None \<Rightarrow> True | Some d \<Rightarrow> \<not> er_success d)"

text \<open>
  A host and some backend answers to run the component on. The host's \<open>stringify\<close> gives
  the text of \<^verbatim>\<open>JSON.stringify(v, null, 2)\<close> on the values used below.
\<close>

definition demo_stringify :: "json \<Rightarrow> jsstring" where
  "demo_stringify v =
     (if v = JArray [JNumber 3] then js ''['' @ [0x0A] @ js ''  3'' @ [0x0A] @ js '']''
      else if v = JNumber 42 then js ''42''
      else if v = JArray [] then js ''[]''
      else js ''null'')"

definition demo_host :: host where
  "demo_host = \<lparr>fresh = (\<lambda>n. (js ''m'', n)), stringify = demo_stringify\<rparr>"

definition healthy_without_count :: health_response where
  "healthy_without_count =
     \<lparr>hr_status = js ''healthy'', hr_message = js ''up'', hr_mongodb_connected = True,
      hr_collections_count = None\<rparr>"

definition healthy_empty :: health_response where
  "healthy_empty =
     \<lparr>hr_status = js ''healthy'', hr_message = js ''up'', hr_mongodb_connected = True,
      hr_collections_count = Some 0\<rparr>"

definition healthy_five :: health_response where
  "healthy_five =
     \<lparr>hr_status = js ''healthy'', hr_message = js ''up'', hr_mongodb_connected = True,
      hr_collections_count = Some 5\<rparr>"

definition degraded :: health_response where
  "degraded =
     \<lparr>hr_status = js ''unhealthy'', hr_message = js ''down'', hr_mongodb_connected = False,
      hr_collections_count = None\<rparr>"

definition chat_ok :: chat_response where
  "chat_ok =
     \<lparr>cr_success = True, cr_question = js ''Count orders by status'',
      cr_query = js ''db.orders.aggregate(...)'', cr_error = None\<rparr>"

definition chat_failed :: chat_response where
  "chat_failed =
     \<lparr>cr_success = False, cr_question = js ''Count orders by status'',
      cr_query = [], cr_error = Some (js ''no such collection'')\<rparr>"

definition chat_echo_other :: chat_response where
  "chat_echo_other =
     \<lparr>cr_success = True, cr_question = js ''count orders'',
      cr_query = js ''db.orders.aggregate(...)'', cr_error = None\<rparr>"

definition execute_empty :: execute_response where
  "execute_empty =
     \<lparr>er_success = True, er_question = js ''Count orders by status'',
      er_query = js ''db.orders.aggregate(...)'', er_result = JArray [],
      er_answer = js ''No orders found'', er_error = None\<rparr>"

definition execute_rows :: execute_response where
  "execute_rows =
     \<lparr>er_success = True, er_question = js ''Count orders by status'',
      er_query = js ''db.orders.aggregate(...)'', er_result = JArray [JNumber 3],
      er_answer = js ''There are 3 orders'', er_error = None\<rparr>"

definition execute_count :: execute_response where
  "execute_count =
     \<lparr>er_success = True, er_question = js ''Count orders by status'',
      er_query = js ''db.orders.aggregate(...)'', er_result = JNumber 42,
      er_answer = js ''42 orders'', er_error = None\<rparr>"

definition execute_failed :: execute_response where
  "execute_failed =
     \<lparr>er_success = False, er_question = js ''Count orders by status'',
      er_query = js ''db.orders.aggregate(...)'', er_result = JNull,
      er_answer = [], er_error = None\<rparr>"

text \<open>
  A session up to an outstanding proposal, then on into an execution whose fetch has not
  settled, and a second question typed while the proposal is outstanding.
\<close>

definition connected_state :: state where
  "connected_state = checkConnection demo_host (Responded 200 (Some healthy_five)) (initial 0)"

definition asking_state :: state where
  "asking_state = connected_state\<lparr>input := js '' Count orders by status ''\<rparr>"

definition proposed_state :: state where
  "proposed_state = handleSendMessage demo_host (Responded 200 (Some chat_ok)) asking_state"

definition executing_state :: state where
  "executing_state = fst (handleExecuteQuery_start demo_host True proposed_state)"

definition asking_again_state :: state where
  "asking_again_state = proposed_state\<lparr>input := js ''Count users''\<rparr>"

text \<open>
  The sample session as a sequence of handler calls and settling fetches.
\<close>

definition demo_session :: "action list" where
  "demo_session =
     [HealthSettles (Responded 200 (Some healthy_five)),
      SetInput (js '' Count orders by status ''),
      CallSendMessage,
      ChatSettles (js ''Count orders by status'') (Responded 200 (Some chat_ok)),
      CallExecuteQuery True,
      ExecuteSettles
        \<lparr>pq_question = js ''Count orders by status'', pq_query = js ''db.orders.aggregate(...)''\<rparr>
        (Responded 200 (Some execute_empty))]"

section \<open>The invariant of the history maps\<close>

text \<open>
  What holds of every configuration of a session: a recorded proposal sits at the
  position of a \<open>Query\<close> message carrying its query; a recorded request equals a proposal
  recorded at an earlier position; every \<open>Result\<close> message has a recorded request; every
  request in flight, and the outstanding proposal, equal a recorded proposal.
\<close>

definition history_ok :: "config \<Rightarrow> bool" where
  "history_ok c \<longleftrightarrow>
     (\<forall>j p. proposal_of c j = Some p \<longrightarrow>
        j < length (messages (ui c)) \<and> m_type (messages (ui c) ! j) = Query
        \<and> m_query (messages (ui c) ! j) = Some (pq_query p))
     \<and> (\<forall>i p. request_of c i = Some p \<longrightarrow> (\<exists>j<i. proposal_of c j = Some p))
     \<and> (\<forall>i<length (messages (ui c)). m_type (messages (ui c) ! i) = Result \<longrightarrow>
          request_of c i \<noteq> None)
     \<and> (\<forall>p \<in> set (execute_inflight c). \<exists>j. proposal_of c j = Some p)
     \<and> (\<forall>p. pendingQuery (ui c) = Some p \<longrightarrow> (\<exists>j. proposal_of c j = Some p))"

section \<open>Basic facts\<close>

lemma messages_addMessage:
  "messages (addMessage h d s) = messages s @ [newMessage h (length (messages s)) d]"
  by (simp add: addMessage_def)

lemma fields_addMessage:
  "input (addMessage h d s) = input s"
  "isLoading (addMessage h d s) = isLoading s"
  "pendingQuery (addMessage h d s) = pendingQuery s"
  "copiedStates (addMessage h d s) = copiedStates s"
  "connectionStatus (addMessage h d s) = connectionStatus s"
  by (simp_all add: addMessage_def)

lemma js_eq_Nil [simp]: "js cs = [] \<longleftrightarrow> cs = []"
  by (simp add: js_def)

lemma trim_eq_Nil: "trim t = [] \<longleftrightarrow> (\<forall>u \<in> set t. isWhiteSpace u)"
proof
  assume "trim t = []"
  then have a: "\<forall>u \<in> set (dropWhile isWhiteSpace t). isWhiteSpace u"
    by (simp add: trim_def dropWhile_eq_Nil_conv)
  have "dropWhile isWhiteSpace t = []"
  proof (rule ccontr)
    assume n: "dropWhile isWhiteSpace t \<noteq> []"
    then have "\<not> isWhiteSpace (hd (dropWhile isWhiteSpace t))" by (rule hd_dropWhile)
    moreover from n have "hd (dropWhile isWhiteSpace t) \<in> set (dropWhile isWhiteSpace t)"
      by simp
    ultimately show False using a by blast
  qed
  then show "\<forall>u \<in> set t. isWhiteSpace u" by (simp add: dropWhile_eq_Nil_conv)
next
  assume "\<forall>u \<in> set t. isWhiteSpace u"
  then show "trim t = []" by (auto simp add: trim_def dest: set_dropWhileD)
qed

lemma notices_differ: "connection_error_notice \<noteq> server_error_notice"
  by (simp add: connection_error_notice_def server_error_notice_def js_def)

lemma notice_texts_differ:
  "([0x274C] @ js '' Connection Error: Unable to connect to the database. ''
      @ js ''Please check your server configuration.'' :: jsstring)
   \<noteq> [0x274C] @ js '' Server Error: Unable to connect to the API server. ''
      @ js ''Please make sure the backend is running on port 5000.''"
  by (simp add: js_def)

lemma handleSendMessage_refused:
  assumes "trim (input s) = [] \<or> isLoading s \<or> connectionStatus s \<noteq> Connected"
  shows "handleSendMessage_start h s = (s, None)" and "handleSendMessage h r s = s"
  using assms by (auto simp add: handleSendMessage_def handleSendMessage_start_def)

lemma handleSendMessage_accepted:
  assumes "trim (input s) \<noteq> []" and "\<not> isLoading s" and "connectionStatus s = Connected"
  shows "handleSendMessage_start h s =
           (addMessage h \<lparr>d_type = User, d_content = trim (input s), d_query = None,
                          d_result = None, d_answer = None\<rparr>
              (s\<lparr>input := [], isLoading := True\<rparr>),
            Some (trim (input s)))"
    and "handleSendMessage h r s =
           handleSendMessage_finish h r
             (addMessage h \<lparr>d_type = User, d_content = trim (input s), d_query = None,
                            d_result = None, d_answer = None\<rparr>
                (s\<lparr>input := [], isLoading := True\<rparr>))"
  using assms by (simp_all add: handleSendMessage_def handleSendMessage_start_def)

lemma finish_generation_fails:
  assumes "generation_fails r"
  shows "\<exists>c. handleSendMessage_finish h r s =
              (addMessage h (notice c) s)\<lparr>isLoading := False\<rparr>"
proof (cases "ok_body r")
  case None
  then have "\<exists>e. handleSendMessage_try h r s = Inl e"
    by (auto simp add: ok_body_def handleSendMessage_try_def
        split: fetch_result.splits if_splits option.splits)
  then show ?thesis by (auto simp add: handleSendMessage_finish_def)
next
  case (Some d)
  with assms have f: "\<not> cr_success d" by (simp add: generation_fails_def)
  from Some obtain st where "r = Responded st (Some d)" and "ok st"
    by (auto simp add: ok_body_def split: fetch_result.splits if_splits)
  with f show ?thesis
    by (auto simp add: handleSendMessage_finish_def handleSendMessage_try_def)
qed

lemma handleSendMessage_failure:
  assumes "trim (input s) \<noteq> []" and "\<not> isLoading s" and "connectionStatus s = Connected"
    and "generation_fails r"
  shows "\<exists>c. handleSendMessage h r s =
           s\<lparr>messages := messages s @
                [newMessage h (length (messages s))
                   \<lparr>d_type = User, d_content = trim (input s), d_query = None,
                    d_result = None, d_answer = None\<rparr>,
                 newMessage h (Suc (length (messages s))) (notice c)],
              input := []\<rparr>"
proof -
  let ?s1 = "addMessage h \<lparr>d_type = User, d_content = trim (input s), d_query = None,
                            d_result = None, d_answer = None\<rparr>
               (s\<lparr>input := [], isLoading := True\<rparr>)"
  from finish_generation_fails [OF assms(4), of h ?s1]
  obtain c where "handleSendMessage_finish h r ?s1 = (addMessage h (notice c) ?s1)\<lparr>isLoading := False\<rparr>"
    by blast
  with handleSendMessage_accepted(2) [OF assms(1-3), of h r] assms(2)
  have "handleSendMessage h r s =
           s\<lparr>messages := messages s @
                [newMessage h (length (messages s))
                   \<lparr>d_type = User, d_content = trim (input s), d_query = None,
                    d_result = None, d_answer = None\<rparr>,
                 newMessage h (Suc (length (messages s))) (notice c)],
              input := []\<rparr>"
    by (simp add: addMessage_def)
  then show ?thesis ..
qed

lemma finish_execution_fails:
  assumes "execution_fails r"
  shows "\<exists>c. handleExecuteQuery_finish h r s =
              (addMessage h (notice c) s)\<lparr>isLoading := False, pendingQuery := None\<rparr>"
proof (cases "ok_body r")
  case None
  then have "\<exists>e. handleExecuteQuery_try h r s = Inl e"
    by (auto simp add: ok_body_def handleExecuteQuery_try_def
        split: fetch_result.splits if_splits option.splits)
  then show ?thesis by (auto simp add: handleExecuteQuery_finish_def)
next
  case (Some d)
  with assms have f: "\<not> er_success d" by (simp add: execution_fails_def)
  from Some obtain st where "r = Responded st (Some d)" and "ok st"
    by (auto simp add: ok_body_def split: fetch_result.splits if_splits)
  with f show ?thesis
    by (auto simp add: handleExecuteQuery_finish_def handleExecuteQuery_try_def)
qed

lemma handleExecuteQuery_approved:
  assumes "pendingQuery s = Some p"
  shows "handleExecuteQuery_start h True s = (s\<lparr>isLoading := True\<rparr>, Some p)"
    and "handleExecuteQuery h True r s = handleExecuteQuery_finish h r (s\<lparr>isLoading := True\<rparr>)"
  using assms by (simp_all add: handleExecuteQuery_def handleExecuteQuery_start_def)

lemma handleExecuteQuery_cancelled:
  assumes "pendingQuery s = Some p"
  shows "handleExecuteQuery_start h False s =
           ((addMessage h (notice cancelled_notice) s)\<lparr>pendingQuery := None\<rparr>, None)"
    and "handleExecuteQuery h False r s =
           (addMessage h (notice cancelled_notice) s)\<lparr>pendingQuery := None\<rparr>"
  using assms by (simp_all add: handleExecuteQuery_def handleExecuteQuery_start_def)

lemma handleExecuteQuery_no_proposal:
  assumes "pendingQuery s = None"
  shows "handleExecuteQuery_start h approve s = (s, None)"
    and "handleExecuteQuery h approve r s = s"
  using assms by (simp_all add: handleExecuteQuery_def handleExecuteQuery_start_def)

subsection \<open>The example session\<close>

lemma trim_example: "trim (js '' Count orders by status '') = js ''Count orders by status''"
  by (simp add: trim_def js_def isWhiteSpace_def)

lemma trim_example2: "trim (js ''Count users'') = js ''Count users''"
  by (simp add: trim_def js_def isWhiteSpace_def)

lemma connected_state_fields:
  "messages connected_state = messages (initial 0)"
  "input connected_state = []"
  "isLoading connected_state = False"
  "pendingQuery connected_state = None"
  "connectionStatus connected_state = Connected"
  by (simp_all add: connected_state_def checkConnection_def checkConnection_try_def
      healthy_five_def initial_def)

lemma asking_state_fields:
  "messages asking_state = messages (initial 0)"
  "input asking_state = js '' Count orders by status ''"
  "isLoading asking_state = False"
  "pendingQuery asking_state = None"
  "connectionStatus asking_state = Connected"
  by (simp_all add: asking_state_def connected_state_fields)

lemma proposed_state_fields:
  "length (messages proposed_state) = 3"
  "input proposed_state = []"
  "isLoading proposed_state = False"
  "pendingQuery proposed_state =
     Some \<lparr>pq_question = js ''Count orders by status'', pq_query = js ''db.orders.aggregate(...)''\<rparr>"
  "connectionStatus proposed_state = Connected"
  by (simp_all add: proposed_state_def handleSendMessage_def handleSendMessage_start_def
      handleSendMessage_finish_def handleSendMessage_try_def asking_state_fields trim_example
      ok_def chat_ok_def messages_addMessage fields_addMessage initial_def)

lemma executing_state_fields:
  "messages executing_state = messages proposed_state"
  "isLoading executing_state = True"
  "pendingQuery executing_state = pendingQuery proposed_state"
  "connectionStatus executing_state = Connected"
  by (simp_all add: executing_state_def handleExecuteQuery_start_def proposed_state_fields)

lemma asking_again_state_fields:
  "messages asking_again_state = messages proposed_state"
  "input asking_again_state = js ''Count users''"
  "isLoading asking_again_state = False"
  "pendingQuery asking_again_state = pendingQuery proposed_state"
  "connectionStatus asking_again_state = Connected"
  by (simp_all add: asking_again_state_def proposed_state_fields)

lemma fails_examples:
  "generation_fails Rejected"
  "generation_fails (Responded 500 (Some chat_ok))"
  "generation_fails (Responded 200 (Some chat_failed))"
  "execution_fails Rejected"
  "execution_fails (Responded 503 None)"
  "execution_fails (Responded 200 (Some execute_failed))"
  by (simp_all add: generation_fails_def execution_fails_def ok_body_def ok_def
      chat_failed_def execute_failed_def)

lemma demo_fresh: "fst (fresh demo_host n) = js ''m''" "snd (fresh demo_host n) = n"
  by (simp_all add: demo_host_def)

lemma demo_stringify_examples:
  "stringify demo_host (JArray [JNumber 3]) = js ''['' @ [0x0A] @ js ''  3'' @ [0x0A] @ js '']''"
  "stringify demo_host (JNumber 42) = js ''42''"
  by (simp_all add: demo_host_def demo_stringify_def)

lemma proposed_state_types: "map m_type (messages proposed_state) = [Bot, User, Query]"
  by (simp add: proposed_state_def handleSendMessage_def handleSendMessage_start_def
      handleSendMessage_finish_def handleSendMessage_try_def asking_state_fields trim_example
      ok_def chat_ok_def messages_addMessage fields_addMessage initial_def newMessage_def)

lemma execute_success_appends_types:
  "map m_type (messages (handleExecuteQuery demo_host True (Responded 200 (Some execute_empty))
      proposed_state)) = [Bot, User, Query, Result, Bot]"
  by (simp add: handleExecuteQuery_def handleExecuteQuery_start_def
      handleExecuteQuery_finish_def handleExecuteQuery_try_def proposed_state_fields
      proposed_state_types messages_addMessage newMessage_def ok_def execute_empty_def)

lemma demo_run:
  "run demo_host demo_session (initial_config 0) =
     \<lparr>ui = handleExecuteQuery demo_host True (Responded 200 (Some execute_empty)) proposed_state,
      health_inflight = 0, chat_inflight = [], execute_inflight = [],
      proposal_of = [2 \<mapsto> \<lparr>pq_question = js ''Count orders by status'',
                              pq_query = js ''db.orders.aggregate(...)''\<rparr>],
      request_of = [3 \<mapsto> \<lparr>pq_question = js ''Count orders by status'',
                             pq_query = js ''db.orders.aggregate(...)''\<rparr>]\<rparr>"
  by (simp add: demo_session_def initial_config_def proposed_state_def asking_state_def
      connected_state_def handleSendMessage_def handleExecuteQuery_def
      handleSendMessage_start_def handleSendMessage_finish_def handleSendMessage_try_def
      handleExecuteQuery_start_def handleExecuteQuery_finish_def handleExecuteQuery_try_def
      checkConnection_def checkConnection_try_def healthy_five_def chat_ok_def
      execute_empty_def trim_example ok_def ok_body_def addMessage_def initial_def
      numeral_2_eq_2 numeral_3_eq_3)

section \<open>The health check\<close>

text \<open>
  C5. \<open>checkConnection\<close> sets the connection status to \<open>Connected\<close> exactly when the
  response carries a body with status "healthy" and a true database-connected flag, and
  to \<open>Error\<close> otherwise. In the connected case it appends exactly one notice, with the
  text of the empty-store warning, when the collection count is exactly zero, and nothing
  for any other count. A body with any other report appends one notice with the
  "Connection Error" text about the database; a rejected fetch or an unparseable body
  appends one notice with the "Server Error" text about the API server; the two texts
  differ. Each appended message is given in full: type \<open>Bot\<close>, the text of the source,
  the host's identifier and time, no query, result or answer.
\<close>

theorem checkConnection_outcomes:
  "(connectionStatus (checkConnection h r s) = Connected \<longleftrightarrow>
      (\<exists>st d. r = Responded st (Some d) \<and> hr_status d = js ''healthy''
              \<and> hr_mongodb_connected d))
   \<and> (connectionStatus (checkConnection h r s) \<noteq> Connected \<longrightarrow>
        connectionStatus (checkConnection h r s) = Error)
   \<and> (\<forall>st d. r = Responded st (Some d) \<and> hr_status d = js ''healthy''
          \<and> hr_mongodb_connected d \<longrightarrow>
        messages (checkConnection h r s) =
          (if hr_collections_count d = Some 0
           then messages s @
             [\<lparr>m_id = fst (fresh h (length (messages s))), m_type = Bot,
               m_content = [0x26A0, 0xFE0F]
                 @ js '' Warning: Your database appears to be empty. ''
                 @ js ''Please add some data to start querying.'',
               m_timestamp = snd (fresh h (length (messages s))),
               m_query = None, m_result = None, m_answer = None\<rparr>]
           else messages s))
   \<and> (\<forall>st d. r = Responded st (Some d)
          \<and> \<not> (hr_status d = js ''healthy'' \<and> hr_mongodb_connected d) \<longrightarrow>
        messages (checkConnection h r s) =
          messages s @
            [\<lparr>m_id = fst (fresh h (length (messages s))), m_type = Bot,
              m_content = [0x274C]
                @ js '' Connection Error: Unable to connect to the database. ''
                @ js ''Please check your server configuration.'',
              m_timestamp = snd (fresh h (length (messages s))),
              m_query = None, m_result = None, m_answer = None\<rparr>])
   \<and> (r = Rejected \<or> (\<exists>st. r = Responded st None) \<longrightarrow>
        messages (checkConnection h r s) =
          messages s @
            [\<lparr>m_id = fst (fresh h (length (messages s))), m_type = Bot,
              m_content = [0x274C]
                @ js '' Server Error: Unable to connect to the API server. ''
                @ js ''Please make sure the backend is running on port 5000.'',
              m_timestamp = snd (fresh h (length (messages s))),
              m_query = None, m_result = None, m_answer = None\<rparr>])
   \<and> ([0x274C] @ js '' Connection Error: Unable to connect to the database. ''
          @ js ''Please check your server configuration.'' :: jsstring)
       \<noteq> [0x274C] @ js '' Server Error: Unable to connect to the API server. ''
          @ js ''Please make sure the backend is running on port 5000.''
   \<and> connection_error_notice \<noteq> server_error_notice
   \<and> m_type (newMessage h n (notice c)) = Bot"
proof -
  let ?s' = "checkConnection h r s"
  have rej: "r = Rejected \<or> (\<exists>st. r = Responded st None) \<Longrightarrow>
      ?s' = addMessage h (notice server_error_notice) (s\<lparr>connectionStatus := Error\<rparr>)"
    by (auto simp add: checkConnection_def checkConnection_try_def)
  have good: "\<And>st d. r = Responded st (Some d) \<Longrightarrow> hr_status d = js ''healthy''
      \<Longrightarrow> hr_mongodb_connected d \<Longrightarrow>
      ?s' = (if hr_collections_count d = Some 0
             then addMessage h (notice empty_database_warning) (s\<lparr>connectionStatus := Connected\<rparr>)
             else s\<lparr>connectionStatus := Connected\<rparr>)"
    by (simp add: checkConnection_def checkConnection_try_def)
  have bad: "\<And>st d. r = Responded st (Some d)
      \<Longrightarrow> \<not> (hr_status d = js ''healthy'' \<and> hr_mongodb_connected d) \<Longrightarrow>
      ?s' = addMessage h (notice connection_error_notice) (s\<lparr>connectionStatus := Error\<rparr>)"
    by (auto simp add: checkConnection_def checkConnection_try_def)
  have shape: "r = Rejected \<or> (\<exists>st. r = Responded st None) \<or> (\<exists>st d. r = Responded st (Some d))"
    by (cases r) auto
  have c1: "connectionStatus ?s' = Connected \<longleftrightarrow>
      (\<exists>st d. r = Responded st (Some d) \<and> hr_status d = js ''healthy''
              \<and> hr_mongodb_connected d)"
  proof
    assume a: "connectionStatus ?s' = Connected"
    show "\<exists>st d. r = Responded st (Some d) \<and> hr_status d = js ''healthy''
              \<and> hr_mongodb_connected d"
    proof (rule ccontr)
      assume n: "\<not> (\<exists>st d. r = Responded st (Some d) \<and> hr_status d = js ''healthy''
              \<and> hr_mongodb_connected d)"
      from shape n have "connectionStatus ?s' = Error"
        using rej bad by (auto simp add: fields_addMessage)
      with a show False by simp
    qed
  next
    assume "\<exists>st d. r = Responded st (Some d) \<and> hr_status d = js ''healthy''
              \<and> hr_mongodb_connected d"
    then obtain st d where "r = Responded st (Some d)" "hr_status d = js ''healthy''"
      "hr_mongodb_connected d" by blast
    from good [OF this] show "connectionStatus ?s' = Connected"
      by (simp add: fields_addMessage)
  qed
  have c2: "connectionStatus ?s' \<noteq> Connected \<longrightarrow> connectionStatus ?s' = Error"
  proof
    assume a: "connectionStatus ?s' \<noteq> Connected"
    with c1 have n: "\<not> (\<exists>st d. r = Responded st (Some d) \<and> hr_status d = js ''healthy''
              \<and> hr_mongodb_connected d)" by simp
    from shape n show "connectionStatus ?s' = Error"
      using rej bad by (auto simp add: fields_addMessage)
  qed
  have c3: "\<forall>st d. r = Responded st (Some d) \<and> hr_status d = js ''healthy''
          \<and> hr_mongodb_connected d \<longrightarrow>
        messages ?s' =
          (if hr_collections_count d = Some 0
           then messages s @
             [\<lparr>m_id = fst (fresh h (length (messages s))), m_type = Bot,
               m_content = [0x26A0, 0xFE0F]
                 @ js '' Warning: Your database appears to be empty. ''
                 @ js ''Please add some data to start querying.'',
               m_timestamp = snd (fresh h (length (messages s))),
               m_query = None, m_result = None, m_answer = None\<rparr>]
           else messages s)"
  proof (intro allI impI, elim conjE)
    fix st d assume a: "r = Responded st (Some d)" "hr_status d = js ''healthy''"
      "hr_mongodb_connected d"
    show "messages ?s' =
          (if hr_collections_count d = Some 0
           then messages s @
             [\<lparr>m_id = fst (fresh h (length (messages s))), m_type = Bot,
               m_content = [0x26A0, 0xFE0F]
                 @ js '' Warning: Your database appears to be empty. ''
                 @ js ''Please add some data to start querying.'',
               m_timestamp = snd (fresh h (length (messages s))),
               m_query = None, m_result = None, m_answer = None\<rparr>]
           else messages s)"
      by (simp only: good [OF a])
        (simp add: messages_addMessage newMessage_def notice_def empty_database_warning_def)
  qed
  have c4: "\<forall>st d. r = Responded st (Some d)
          \<and> \<not> (hr_status d = js ''healthy'' \<and> hr_mongodb_connected d) \<longrightarrow>
        messages ?s' =
          messages s @
            [\<lparr>m_id = fst (fresh h (length (messages s))), m_type = Bot,
              m_content = [0x274C]
                @ js '' Connection Error: Unable to connect to the database. ''
                @ js ''Please check your server configuration.'',
              m_timestamp = snd (fresh h (length (messages s))),
              m_query = None, m_result = None, m_answer = None\<rparr>]"
  proof (intro allI impI, elim conjE)
    fix st d assume a: "r = Responded st (Some d)"
      "\<not> (hr_status d = js ''healthy'' \<and> hr_mongodb_connected d)"
    show "messages ?s' =
          messages s @
            [\<lparr>m_id = fst (fresh h (length (messages s))), m_type = Bot,
              m_content = [0x274C]
                @ js '' Connection Error: Unable to connect to the database. ''
                @ js ''Please check your server configuration.'',
              m_timestamp = snd (fresh h (length (messages s))),
              m_query = None, m_result = None, m_answer = None\<rparr>]"
      by (simp only: bad [OF a])
        (simp add: messages_addMessage newMessage_def notice_def connection_error_notice_def)
  qed
  have c5: "r = Rejected \<or> (\<exists>st. r = Responded st None) \<longrightarrow>
        messages ?s' =
          messages s @
            [\<lparr>m_id = fst (fresh h (length (messages s))), m_type = Bot,
              m_content = [0x274C]
                @ js '' Server Error: Unable to connect to the API server. ''
                @ js ''Please make sure the backend is running on port 5000.'',
              m_timestamp = snd (fresh h (length (messages s))),
              m_query = None, m_result = None, m_answer = None\<rparr>]"
  proof
    assume a: "r = Rejected \<or> (\<exists>st. r = Responded st None)"
    show "messages ?s' =
          messages s @
            [\<lparr>m_id = fst (fresh h (length (messages s))), m_type = Bot,
              m_content = [0x274C]
                @ js '' Server Error: Unable to connect to the API server. ''
                @ js ''Please make sure the backend is running on port 5000.'',
              m_timestamp = snd (fresh h (length (messages s))),
              m_query = None, m_result = None, m_answer = None\<rparr>]"
      by (simp only: rej [OF a])
        (simp add: messages_addMessage newMessage_def notice_def server_error_notice_def)
  qed
  have c8: "m_type (newMessage h n (notice c)) = Bot"
    by (simp add: newMessage_def notice_def)
  show ?thesis
    by (intro conjI) (rule c1 c2 c3 c4 c5 notice_texts_differ notices_differ c8)+
qed

theorem checkConnection_outcomes_witness:
  "connectionStatus (checkConnection demo_host (Responded 200 (Some healthy_empty)) (initial 0))
     = Connected
   \<and> messages (checkConnection demo_host (Responded 200 (Some healthy_empty)) (initial 0))
     = messages (initial 0) @
         [\<lparr>m_id = js ''m'', m_type = Bot,
           m_content = [0x26A0, 0xFE0F]
             @ js '' Warning: Your database appears to be empty. ''
             @ js ''Please add some data to start querying.'',
           m_timestamp = 1, m_query = None, m_result = None, m_answer = None\<rparr>]
   \<and> connectionStatus (checkConnection demo_host (Responded 200 (Some healthy_five)) (initial 0))
     = Connected
   \<and> messages (checkConnection demo_host (Responded 200 (Some healthy_five)) (initial 0))
     = messages (initial 0)
   \<and> connectionStatus (checkConnection demo_host (Responded 200 (Some degraded)) (initial 0))
     = Error
   \<and> messages (checkConnection demo_host (Responded 200 (Some degraded)) (initial 0))
     = messages (initial 0) @
         [\<lparr>m_id = js ''m'', m_type = Bot,
           m_content = [0x274C]
             @ js '' Connection Error: Unable to connect to the database. ''
             @ js ''Please check your server configuration.'',
           m_timestamp = 1, m_query = None, m_result = None, m_answer = None\<rparr>]
   \<and> connectionStatus (checkConnection demo_host Rejected (initial 0)) = Error
   \<and> messages (checkConnection demo_host Rejected (initial 0))
     = messages (initial 0) @
         [\<lparr>m_id = js ''m'', m_type = Bot,
           m_content = [0x274C]
             @ js '' Server Error: Unable to connect to the API server. ''
             @ js ''Please make sure the backend is running on port 5000.'',
           m_timestamp = 1, m_query = None, m_result = None, m_answer = None\<rparr>]"
proof -
  have l: "length (messages (initial 0)) = 1" by (simp add: initial_def)
  note f = demo_fresh
  have e: "hr_status healthy_empty = js ''healthy''" "hr_mongodb_connected healthy_empty"
    "hr_collections_count healthy_empty = Some 0"
    by (simp_all add: healthy_empty_def)
  have v: "hr_status healthy_five = js ''healthy''" "hr_mongodb_connected healthy_five"
    "hr_collections_count healthy_five \<noteq> Some 0"
    by (simp_all add: healthy_five_def)
  have d: "\<not> (hr_status degraded = js ''healthy'' \<and> hr_mongodb_connected degraded)"
    by (simp add: degraded_def)
  note t1 = checkConnection_outcomes [of demo_host "Responded 200 (Some healthy_empty)"
      "initial 0"]
  note t2 = checkConnection_outcomes [of demo_host "Responded 200 (Some healthy_five)"
      "initial 0"]
  note t3 = checkConnection_outcomes [of demo_host "Responded 200 (Some degraded)" "initial 0"]
  note t4 = checkConnection_outcomes [of demo_host Rejected "initial 0"]
  from t1 e have a1: "connectionStatus (checkConnection demo_host
      (Responded 200 (Some healthy_empty)) (initial 0)) = Connected" by blast
  from t1 e have a2: "messages (checkConnection demo_host (Responded 200 (Some healthy_empty))
      (initial 0)) = messages (initial 0) @
         [\<lparr>m_id = js ''m'', m_type = Bot,
           m_content = [0x26A0, 0xFE0F]
             @ js '' Warning: Your database appears to be empty. ''
             @ js ''Please add some data to start querying.'',
           m_timestamp = 1, m_query = None, m_result = None, m_answer = None\<rparr>]"
    by (simp add: l f)
  from t2 v have b1: "connectionStatus (checkConnection demo_host
      (Responded 200 (Some healthy_five)) (initial 0)) = Connected" by blast
  from t2 v have b2: "messages (checkConnection demo_host (Responded 200 (Some healthy_five))
      (initial 0)) = messages (initial 0)"
    by simp
  from t3 d have c1: "connectionStatus (checkConnection demo_host
      (Responded 200 (Some degraded)) (initial 0)) = Error" by simp
  from t3 d have c2: "messages (checkConnection demo_host (Responded 200 (Some degraded))
      (initial 0)) = messages (initial 0) @
         [\<lparr>m_id = js ''m'', m_type = Bot,
           m_content = [0x274C]
             @ js '' Connection Error: Unable to connect to the database. ''
             @ js ''Please check your server configuration.'',
           m_timestamp = 1, m_query = None, m_result = None, m_answer = None\<rparr>]"
    by (simp add: l f)
  from t4 have d1: "connectionStatus (checkConnection demo_host Rejected (initial 0)) = Error"
    by simp
  from t4 have d2: "messages (checkConnection demo_host Rejected (initial 0))
     = messages (initial 0) @
         [\<lparr>m_id = js ''m'', m_type = Bot,
           m_content = [0x274C]
             @ js '' Server Error: Unable to connect to the API server. ''
             @ js ''Please make sure the backend is running on port 5000.'',
           m_timestamp = 1, m_query = None, m_result = None, m_answer = None\<rparr>]"
    by (simp add: l f)
  show ?thesis by (intro conjI) (rule a1 a2 b1 b2 c1 c2 d1 d2)+
qed

text \<open>
  C10. When the health response reports the status "healthy" with a true
  database-connected flag and has no collection count at all, \<open>checkConnection\<close> sets the
  connection status to \<open>Connected\<close> and changes nothing else: no warning is appended,
  since an absent count is not strictly equal to zero.
\<close>

theorem checkConnection_absent_count:
  assumes "hr_status d = js ''healthy''" and "hr_mongodb_connected d"
    and "hr_collections_count d = None"
  shows "checkConnection h (Responded st (Some d)) s = s\<lparr>connectionStatus := Connected\<rparr>"
  using assms by (simp add: checkConnection_def checkConnection_try_def)

theorem checkConnection_absent_count_witness:
  "hr_status healthy_without_count = js ''healthy''
   \<and> hr_mongodb_connected healthy_without_count
   \<and> hr_collections_count healthy_without_count = None
   \<and> connectionStatus (checkConnection demo_host (Responded 200 (Some healthy_without_count))
        (initial 0)) = Connected
   \<and> messages (checkConnection demo_host (Responded 200 (Some healthy_without_count))
        (initial 0)) = messages (initial 0)"
  using checkConnection_absent_count [of healthy_without_count demo_host 200 "initial 0"]
  by (simp add: healthy_without_count_def)

section \<open>The log only grows\<close>

lemma prefix_checkConnection: "prefix (messages s) (messages (checkConnection h r s))"
  by (simp add: checkConnection_def checkConnection_try_def messages_addMessage
      split: fetch_result.split option.split)

lemma prefix_handleSendMessage_start:
  "prefix (messages s) (messages (fst (handleSendMessage_start h s)))"
  by (simp add: handleSendMessage_start_def messages_addMessage)

lemma prefix_handleSendMessage_finish:
  "prefix (messages s) (messages (handleSendMessage_finish h r s))"
  by (simp add: handleSendMessage_finish_def handleSendMessage_try_def messages_addMessage
      split: fetch_result.split option.split)

lemma prefix_handleSendMessage: "prefix (messages s) (messages (handleSendMessage h r s))"
proof (cases "handleSendMessage_start h s")
  case (Pair s' q)
  have a: "prefix (messages s) (messages s')"
    using prefix_handleSendMessage_start [of s h] Pair by simp
  show ?thesis
  proof (cases q)
    case None
    with Pair a show ?thesis by (simp add: handleSendMessage_def)
  next
    case (Some x)
    with Pair have "handleSendMessage h r s = handleSendMessage_finish h r s'"
      by (simp add: handleSendMessage_def)
    with a prefix_handleSendMessage_finish [of s' h r] show ?thesis
      by (metis prefix_order.order_trans)
  qed
qed

lemma prefix_handleExecuteQuery_start:
  "prefix (messages s) (messages (fst (handleExecuteQuery_start h a s)))"
  by (simp add: handleExecuteQuery_start_def messages_addMessage split: option.split)

lemma prefix_handleExecuteQuery_finish:
  "prefix (messages s) (messages (handleExecuteQuery_finish h r s))"
  by (simp add: handleExecuteQuery_finish_def handleExecuteQuery_try_def messages_addMessage
      split: fetch_result.split option.split)

lemma prefix_handleExecuteQuery: "prefix (messages s) (messages (handleExecuteQuery h a r s))"
proof (cases "handleExecuteQuery_start h a s")
  case (Pair s' q)
  have a: "prefix (messages s) (messages s')"
    using prefix_handleExecuteQuery_start [of s h a] Pair by simp
  show ?thesis
  proof (cases q)
    case None
    with Pair a show ?thesis by (simp add: handleExecuteQuery_def)
  next
    case (Some x)
    with Pair have "handleExecuteQuery h a r s = handleExecuteQuery_finish h r s'"
      by (simp add: handleExecuteQuery_def)
    with a prefix_handleExecuteQuery_finish [of s' h r] show ?thesis
      by (metis prefix_order.order_trans)
  qed
qed

lemma prefix_step: "prefix (messages (ui c)) (messages (ui (step h a c)))"
proof (cases a)
  case (SetInput t)
  then show ?thesis by simp
next
  case (HealthSettles r)
  then show ?thesis by (simp add: prefix_checkConnection)
next
  case CallSendMessage
  then show ?thesis
    using prefix_handleSendMessage_start [of "ui c" h]
    by (auto split: prod.split option.split)
next
  case (ChatSettles q r)
  then show ?thesis by (simp add: prefix_handleSendMessage_finish)
next
  case (CallExecuteQuery approve)
  then show ?thesis
    using prefix_handleExecuteQuery_start [of "ui c" h approve]
    by (auto split: prod.split option.split)
next
  case (ExecuteSettles p r)
  then show ?thesis by (simp add: prefix_handleExecuteQuery_finish)
qed

lemma prefix_run: "prefix (messages (ui c)) (messages (ui (run h as c)))"
proof (induction as arbitrary: c)
  case Nil
  show ?case by simp
next
  case (Cons a as)
  have "prefix (messages (ui c)) (messages (ui (step h a c)))" by (rule prefix_step)
  moreover have "prefix (messages (ui (step h a c))) (messages (ui (run h as (step h a c))))"
    by (rule Cons.IH)
  ultimately have "prefix (messages (ui c)) (messages (ui (run h as (step h a c))))"
    by (rule prefix_order.order_trans)
  then show ?case by simp
qed

text \<open>
  C8. The conversation log is append-only. After \<open>checkConnection\<close>,
  \<open>handleSendMessage\<close> or \<open>handleExecuteQuery\<close>, whatever the arguments and the
  outcome of the fetch, the log before the call is a prefix of the log after it: the old
  messages are all there, unchanged and in place. The same holds from any configuration
  across any sequence of handler calls and settling fetches, so for a whole session.
\<close>

theorem log_append_only:
  "prefix (messages s) (messages (checkConnection h r0 s))
   \<and> prefix (messages s) (messages (handleSendMessage h r1 s))
   \<and> prefix (messages s) (messages (handleExecuteQuery h approve r2 s))
   \<and> prefix (messages (ui c)) (messages (ui (run h as c)))"
  by (simp add: prefix_checkConnection prefix_handleSendMessage prefix_handleExecuteQuery
      prefix_run)

theorem log_append_only_witness:
  "prefix (messages (initial 0))
     (messages (ui (run demo_host demo_session (initial_config 0))))
   \<and> length (messages (initial 0)) = 1
   \<and> length (messages (ui (run demo_host demo_session (initial_config 0)))) = 5
   \<and> prefix (messages proposed_state)
        (messages (handleExecuteQuery demo_host False Rejected proposed_state))"
proof -
  have "length (map m_type (messages (ui (run demo_host demo_session (initial_config 0)))))
          = 5"
    by (simp only: demo_run config.simps execute_success_appends_types) simp
  then have l: "length (messages (ui (run demo_host demo_session (initial_config 0)))) = 5"
    by simp
  have i: "ui (initial_config 0) = initial 0" by (simp add: initial_config_def)
  have n: "length (messages (initial 0)) = 1" by (simp add: initial_def)
  from log_append_only [of proposed_state demo_host Rejected Rejected False Rejected
      "initial_config 0" demo_session] i l n
  show ?thesis by simp
qed

section \<open>Resolving a proposal\<close>

text \<open>
  C2. If a proposal is outstanding, \<open>handleExecuteQuery\<close> leaves \<^verbatim>\<open>pendingQuery\<close>
  cleared when it returns, on cancel and on approve alike, and on approve for every
  outcome of the execute call: reported success, reported failure, a status that is not
  ok, a rejected fetch or an unparseable body.
\<close>

theorem resolve_clears_pending:
  assumes "pendingQuery s = Some p"
  shows "pendingQuery (handleExecuteQuery h approve r s) = None"
  using assms
  by (simp add: handleExecuteQuery_def handleExecuteQuery_start_def
      handleExecuteQuery_finish_def)

theorem resolve_clears_pending_witness:
  "pendingQuery proposed_state \<noteq> None
   \<and> pendingQuery (handleExecuteQuery demo_host False Rejected proposed_state) = None
   \<and> pendingQuery (handleExecuteQuery demo_host True Rejected proposed_state) = None
   \<and> pendingQuery (handleExecuteQuery demo_host True (Responded 500 None) proposed_state) = None
   \<and> pendingQuery (handleExecuteQuery demo_host True (Responded 200 (Some execute_failed))
        proposed_state) = None
   \<and> pendingQuery (handleExecuteQuery demo_host True (Responded 200 (Some execute_empty))
        proposed_state) = None"
  using resolve_clears_pending [OF proposed_state_fields(4), of demo_host]
  by (simp add: proposed_state_fields)

text \<open>
  C6. When an approved proposal is executed and the backend reports success, exactly two
  messages are appended. The first has type \<open>Result\<close>, carries the raw result, and its
  text is "Query Result:" followed by a fenced block that holds "No results found" when
  the result is an empty array and the host's rendering of the whole value otherwise.
  The second is a notice whose text is the check mark and the answer supplied by the
  backend, which it also carries in its answer field.
\<close>

theorem execute_success_appends:
  assumes "pendingQuery s = Some p" and "ok st" and "er_success d"
  shows "messages (handleExecuteQuery h True (Responded st (Some d)) s) =
           messages s @
           [\<lparr>m_id = fst (fresh h (length (messages s))), m_type = Result,
             m_content = js ''Query Result:'' @ [0x0A] @ js ''```json'' @ [0x0A]
               @ (if er_result d = JArray [] then js ''No results found''
                  else stringify h (er_result d))
               @ [0x0A] @ js ''```'',
             m_timestamp = snd (fresh h (length (messages s))),
             m_query = None, m_result = Some (er_result d), m_answer = None\<rparr>,
            \<lparr>m_id = fst (fresh h (length (messages s) + 1)), m_type = Bot,
             m_content = [0x2705] @ js '' '' @ er_answer d,
             m_timestamp = snd (fresh h (length (messages s) + 1)),
             m_query = None, m_result = None, m_answer = Some (er_answer d)\<rparr>]"
  using assms
  by (simp add: handleExecuteQuery_def handleExecuteQuery_start_def
      handleExecuteQuery_finish_def handleExecuteQuery_try_def messages_addMessage
      resultDisplay_def newMessage_def query_result_content_def answer_content_def
      split: json.split)

theorem execute_success_appends_witness:
  "pendingQuery proposed_state \<noteq> None \<and> ok 200
   \<and> er_success execute_empty \<and> er_success execute_rows \<and> er_success execute_count
   \<and> length (messages proposed_state) = 3
   \<and> messages (handleExecuteQuery demo_host True (Responded 200 (Some execute_empty))
        proposed_state)
      = messages proposed_state @
        [\<lparr>m_id = js ''m'', m_type = Result,
          m_content = js ''Query Result:'' @ [0x0A] @ js ''```json'' @ [0x0A]
            @ js ''No results found'' @ [0x0A] @ js ''```'',
          m_timestamp = 3, m_query = None, m_result = Some (JArray []), m_answer = None\<rparr>,
         \<lparr>m_id = js ''m'', m_type = Bot,
          m_content = [0x2705] @ js '' '' @ js ''No orders found'',
          m_timestamp = 4, m_query = None, m_result = None,
          m_answer = Some (js ''No orders found'')\<rparr>]
   \<and> messages (handleExecuteQuery demo_host True (Responded 200 (Some execute_rows))
        proposed_state)
      = messages proposed_state @
        [\<lparr>m_id = js ''m'', m_type = Result,
          m_content = js ''Query Result:'' @ [0x0A] @ js ''```json'' @ [0x0A]
            @ (js ''['' @ [0x0A] @ js ''  3'' @ [0x0A] @ js '']'') @ [0x0A] @ js ''```'',
          m_timestamp = 3, m_query = None, m_result = Some (JArray [JNumber 3]),
          m_answer = None\<rparr>,
         \<lparr>m_id = js ''m'', m_type = Bot,
          m_content = [0x2705] @ js '' '' @ js ''There are 3 orders'',
          m_timestamp = 4, m_query = None, m_result = None,
          m_answer = Some (js ''There are 3 orders'')\<rparr>]
   \<and> messages (handleExecuteQuery demo_host True (Responded 200 (Some execute_count))
        proposed_state)
      = messages proposed_state @
        [\<lparr>m_id = js ''m'', m_type = Result,
          m_content = js ''Query Result:'' @ [0x0A] @ js ''```json'' @ [0x0A]
            @ js ''42'' @ [0x0A] @ js ''```'',
          m_timestamp = 3, m_query = None, m_result = Some (JNumber 42), m_answer = None\<rparr>,
         \<lparr>m_id = js ''m'', m_type = Bot,
          m_content = [0x2705] @ js '' '' @ js ''42 orders'',
          m_timestamp = 4, m_query = None, m_result = None,
          m_answer = Some (js ''42 orders'')\<rparr>]"
proof -
  have o: "ok 200" by (simp add: ok_def)
  have p: "pendingQuery proposed_state \<noteq> None" by (simp add: proposed_state_fields)
  have e1: "er_success execute_empty" by (simp add: execute_empty_def)
  have e2: "er_success execute_rows" by (simp add: execute_rows_def)
  have e3: "er_success execute_count" by (simp add: execute_count_def)
  note l = proposed_state_fields(1)
  have a1: "messages (handleExecuteQuery demo_host True (Responded 200 (Some execute_empty))
        proposed_state)
      = messages proposed_state @
        [\<lparr>m_id = js ''m'', m_type = Result,
          m_content = js ''Query Result:'' @ [0x0A] @ js ''```json'' @ [0x0A]
            @ js ''No results found'' @ [0x0A] @ js ''```'',
          m_timestamp = 3, m_query = None, m_result = Some (JArray []), m_answer = None\<rparr>,
         \<lparr>m_id = js ''m'', m_type = Bot,
          m_content = [0x2705] @ js '' '' @ js ''No orders found'',
          m_timestamp = 4, m_query = None, m_result = None,
          m_answer = Some (js ''No orders found'')\<rparr>]"
    by (simp only: execute_success_appends [OF proposed_state_fields(4) o e1, of demo_host])
      (simp add: l demo_fresh execute_empty_def)
  have a2: "messages (handleExecuteQuery demo_host True (Responded 200 (Some execute_rows))
        proposed_state)
      = messages proposed_state @
        [\<lparr>m_id = js ''m'', m_type = Result,
          m_content = js ''Query Result:'' @ [0x0A] @ js ''```json'' @ [0x0A]
            @ (js ''['' @ [0x0A] @ js ''  3'' @ [0x0A] @ js '']'') @ [0x0A] @ js ''```'',
          m_timestamp = 3, m_query = None, m_result = Some (JArray [JNumber 3]),
          m_answer = None\<rparr>,
         \<lparr>m_id = js ''m'', m_type = Bot,
          m_content = [0x2705] @ js '' '' @ js ''There are 3 orders'',
          m_timestamp = 4, m_query = None, m_result = None,
          m_answer = Some (js ''There are 3 orders'')\<rparr>]"
    by (simp only: execute_success_appends [OF proposed_state_fields(4) o e2, of demo_host])
      (simp add: l demo_fresh execute_rows_def demo_stringify_examples)
  have a3: "messages (handleExecuteQuery demo_host True (Responded 200 (Some execute_count))
        proposed_state)
      = messages proposed_state @
        [\<lparr>m_id = js ''m'', m_type = Result,
          m_content = js ''Query Result:'' @ [0x0A] @ js ''```json'' @ [0x0A]
            @ js ''42'' @ [0x0A] @ js ''```'',
          m_timestamp = 3, m_query = None, m_result = Some (JNumber 42), m_answer = None\<rparr>,
         \<lparr>m_id = js ''m'', m_type = Bot,
          m_content = [0x2705] @ js '' '' @ js ''42 orders'',
          m_timestamp = 4, m_query = None, m_result = None,
          m_answer = Some (js ''42 orders'')\<rparr>]"
    by (simp only: execute_success_appends [OF proposed_state_fields(4) o e3, of demo_host])
      (simp add: l demo_fresh execute_count_def demo_stringify_examples)
  show ?thesis by (intro conjI) (rule p o e1 e2 e3 l a1 a2 a3)+
qed

section \<open>Calls that are refused\<close>

text \<open>
  C3, as the claim states it, fails: \<open>handleExecuteQuery\<close> does not look at
  \<^verbatim>\<open>isLoading\<close>. In the state where an approved execution is in flight (busy, the
  proposal still set), a cancel request appends the cancellation notice and clears the
  proposal.
\<close>

theorem cancel_while_busy_counterexample:
  "isLoading executing_state
   \<and> pendingQuery executing_state \<noteq> None
   \<and> pendingQuery (handleExecuteQuery demo_host False Rejected executing_state) = None
   \<and> length (messages (handleExecuteQuery demo_host False Rejected executing_state))
       = length (messages executing_state) + 1
   \<and> handleExecuteQuery demo_host False Rejected executing_state \<noteq> executing_state"
proof -
  have p: "pendingQuery executing_state =
     Some \<lparr>pq_question = js ''Count orders by status'', pq_query = js ''db.orders.aggregate(...)''\<rparr>"
    by (simp add: executing_state_fields proposed_state_fields)
  have a: "pendingQuery (handleExecuteQuery demo_host False Rejected executing_state) = None"
    by (simp add: handleExecuteQuery_cancelled(2) [OF p])
  have b: "length (messages (handleExecuteQuery demo_host False Rejected executing_state))
       = length (messages executing_state) + 1"
    by (simp add: handleExecuteQuery_cancelled(2) [OF p] messages_addMessage)
  from a p have "handleExecuteQuery demo_host False Rejected executing_state \<noteq> executing_state"
    by auto
  with a b p show ?thesis by (simp add: executing_state_fields)
qed

text \<open>
  C3, amended. \<open>handleSendMessage\<close> is a no-op that leaves the whole state as it was
  and sends nothing when the input is empty or only white space, when the connection
  status is not \<open>Connected\<close>, or when the busy flag is set. \<open>handleExecuteQuery\<close> is a
  no-op exactly when no proposal is outstanding; the busy flag does not stop it. The
  busy flag stops a resolution only at the two approval buttons, which are disabled
  while it is set.
\<close>

theorem refused_calls_are_noops:
  "((\<forall>u \<in> set (input s). isWhiteSpace u) \<or> connectionStatus s \<noteq> Connected \<or> isLoading s \<longrightarrow>
      handleSendMessage_start h s = (s, None) \<and> handleSendMessage h r1 s = s)
   \<and> (pendingQuery s = None \<longrightarrow> handleExecuteQuery_start h approve s = (s, None))
   \<and> (handleExecuteQuery h approve r2 s = s \<longleftrightarrow> pendingQuery s = None)
   \<and> (isLoading s \<longrightarrow> approvalButton_onClick h approve r2 s = s)"
proof -
  have a: "(\<forall>u \<in> set (input s). isWhiteSpace u) \<or> connectionStatus s \<noteq> Connected \<or> isLoading s \<longrightarrow>
      handleSendMessage_start h s = (s, None) \<and> handleSendMessage h r1 s = s"
    using handleSendMessage_refused(1) [of s h] handleSendMessage_refused(2) [of s h r1]
    by (auto simp add: trim_eq_Nil)
  have b: "pendingQuery s = None \<longrightarrow> handleExecuteQuery_start h approve s = (s, None)"
    by (simp add: handleExecuteQuery_no_proposal)
  have c: "handleExecuteQuery h approve r2 s = s \<longleftrightarrow> pendingQuery s = None"
  proof (cases "pendingQuery s")
    case None
    then show ?thesis by (simp add: handleExecuteQuery_no_proposal)
  next
    case (Some p)
    have "pendingQuery (handleExecuteQuery h approve r2 s) = None"
      using Some by (simp add: handleExecuteQuery_def handleExecuteQuery_start_def
          handleExecuteQuery_finish_def)
    with Some show ?thesis by auto
  qed
  have d: "isLoading s \<longrightarrow> approvalButton_onClick h approve r2 s = s"
    by (simp add: approvalButton_onClick_def)
  from a b c d show ?thesis by blast
qed

theorem refused_calls_are_noops_witness:
  "trim (js ''  '') = []
   \<and> handleSendMessage demo_host (Responded 200 (Some chat_ok))
        (connected_state\<lparr>input := js ''  ''\<rparr>) = connected_state\<lparr>input := js ''  ''\<rparr>
   \<and> connectionStatus (initial 0) \<noteq> Connected
   \<and> handleSendMessage demo_host (Responded 200 (Some chat_ok)) (initial 0) = initial 0
   \<and> isLoading executing_state
   \<and> handleSendMessage demo_host (Responded 200 (Some chat_ok)) executing_state = executing_state
   \<and> approvalButton_onClick demo_host False Rejected executing_state = executing_state
   \<and> pendingQuery connected_state = None
   \<and> handleExecuteQuery demo_host True (Responded 200 (Some execute_empty)) connected_state
       = connected_state"
proof -
  have w: "\<forall>u \<in> set (input (connected_state\<lparr>input := js ''  ''\<rparr>)). isWhiteSpace u"
    by (simp add: js_def isWhiteSpace_def)
  have t: "trim (js ''  '') = []" by (simp add: trim_def js_def isWhiteSpace_def)
  have c: "connectionStatus (initial 0) \<noteq> Connected" by (simp add: initial_def)
  have l: "isLoading executing_state" by (simp add: executing_state_fields)
  have p: "pendingQuery connected_state = None" by (simp add: connected_state_fields)
  from refused_calls_are_noops [of "connected_state\<lparr>input := js ''  ''\<rparr>" demo_host
      "Responded 200 (Some chat_ok)" True Rejected] w
  have 1: "handleSendMessage demo_host (Responded 200 (Some chat_ok))
        (connected_state\<lparr>input := js ''  ''\<rparr>) = connected_state\<lparr>input := js ''  ''\<rparr>"
    by blast
  from refused_calls_are_noops [of "initial 0" demo_host "Responded 200 (Some chat_ok)"
      True Rejected] c
  have 2: "handleSendMessage demo_host (Responded 200 (Some chat_ok)) (initial 0) = initial 0"
    by blast
  from refused_calls_are_noops [of executing_state demo_host "Responded 200 (Some chat_ok)"
      False Rejected] l
  have 3: "handleSendMessage demo_host (Responded 200 (Some chat_ok)) executing_state
             = executing_state"
    and 4: "approvalButton_onClick demo_host False Rejected executing_state = executing_state"
    by blast+
  from refused_calls_are_noops [of connected_state demo_host "Responded 200 (Some chat_ok)"
      True "Responded 200 (Some execute_empty)"] p
  have 5: "handleExecuteQuery demo_host True (Responded 200 (Some execute_empty))
             connected_state = connected_state"
    by blast
  from t 1 c 2 l 3 4 p 5 show ?thesis by blast
qed

section \<open>Failures\<close>

text \<open>
  C4, as the claim states it, fails for the health check: \<open>checkConnection\<close> never looks
  at the status of the response. A response with status 500 whose body reports a healthy,
  connected backend appends no notice at all.
\<close>

theorem health_status_ignored_counterexample:
  "\<not> ok 500
   \<and> messages (checkConnection demo_host (Responded 500 (Some healthy_five)) (initial 0))
       = messages (initial 0)"
  by (simp add: ok_def checkConnection_def checkConnection_try_def healthy_five_def)

text \<open>
  C4, amended. A \<open>handleSendMessage\<close> call that passes its guard and whose generation
  call fails (rejected fetch, status not ok, unparseable body, or reported failure)
  appends the user's question and then exactly one notice, and returns with the busy
  flag cleared. An approved \<open>handleExecuteQuery\<close> whose execute call fails appends
  exactly one notice and returns with the busy flag cleared. \<open>checkConnection\<close> appends
  exactly one notice whenever the response is not a body reporting a healthy, connected
  backend, whatever the status, and leaves the busy flag as it was. Every exception
  thrown in a \<^verbatim>\<open>try\<close> block is caught by the handler itself: the handlers are total
  functions from state to state.
\<close>

theorem failure_appends_one_notice:
  "(trim (input s) \<noteq> [] \<and> \<not> isLoading s \<and> connectionStatus s = Connected
      \<and> generation_fails r1 \<longrightarrow>
      (\<exists>c. messages (handleSendMessage h r1 s) =
             messages s @
             [newMessage h (length (messages s))
                \<lparr>d_type = User, d_content = trim (input s), d_query = None,
                 d_result = None, d_answer = None\<rparr>,
              newMessage h (Suc (length (messages s))) (notice c)])
      \<and> \<not> isLoading (handleSendMessage h r1 s))
   \<and> (pendingQuery s \<noteq> None \<and> execution_fails r2 \<longrightarrow>
      (\<exists>c. messages (handleExecuteQuery h True r2 s) =
             messages s @ [newMessage h (length (messages s)) (notice c)])
      \<and> \<not> isLoading (handleExecuteQuery h True r2 s))
   \<and> ((\<forall>st d. r0 = Responded st (Some d) \<longrightarrow>
          \<not> (hr_status d = js ''healthy'' \<and> hr_mongodb_connected d)) \<longrightarrow>
      (\<exists>c. messages (checkConnection h r0 s) =
             messages s @ [newMessage h (length (messages s)) (notice c)])
      \<and> isLoading (checkConnection h r0 s) = isLoading s)
   \<and> (ok_body r1 = None \<longrightarrow> isl (handleSendMessage_try h r1 s))
   \<and> (ok_body r2 = None \<longrightarrow> isl (handleExecuteQuery_try h r2 s))"
proof -
  have a: "trim (input s) \<noteq> [] \<and> \<not> isLoading s \<and> connectionStatus s = Connected
      \<and> generation_fails r1 \<longrightarrow>
      (\<exists>c. messages (handleSendMessage h r1 s) =
             messages s @
             [newMessage h (length (messages s))
                \<lparr>d_type = User, d_content = trim (input s), d_query = None,
                 d_result = None, d_answer = None\<rparr>,
              newMessage h (Suc (length (messages s))) (notice c)])
      \<and> \<not> isLoading (handleSendMessage h r1 s)"
  proof (intro impI, elim conjE)
    assume h: "trim (input s) \<noteq> []" "\<not> isLoading s" "connectionStatus s = Connected"
      "generation_fails r1"
    from handleSendMessage_failure [OF h, of h] obtain c where
      e: "handleSendMessage h r1 s =
           s\<lparr>messages := messages s @
                [newMessage h (length (messages s))
                   \<lparr>d_type = User, d_content = trim (input s), d_query = None,
                    d_result = None, d_answer = None\<rparr>,
                 newMessage h (Suc (length (messages s))) (notice c)],
              input := []\<rparr>" by blast
    have "messages (handleSendMessage h r1 s) =
             messages s @
             [newMessage h (length (messages s))
                \<lparr>d_type = User, d_content = trim (input s), d_query = None,
                 d_result = None, d_answer = None\<rparr>,
              newMessage h (Suc (length (messages s))) (notice c)]"
      by (simp add: e)
    moreover have "\<not> isLoading (handleSendMessage h r1 s)" using h(2) by (simp add: e)
    ultimately show "(\<exists>c. messages (handleSendMessage h r1 s) =
             messages s @
             [newMessage h (length (messages s))
                \<lparr>d_type = User, d_content = trim (input s), d_query = None,
                 d_result = None, d_answer = None\<rparr>,
              newMessage h (Suc (length (messages s))) (notice c)])
      \<and> \<not> isLoading (handleSendMessage h r1 s)" by blast
  qed
  have b: "pendingQuery s \<noteq> None \<and> execution_fails r2 \<longrightarrow>
      (\<exists>c. messages (handleExecuteQuery h True r2 s) =
             messages s @ [newMessage h (length (messages s)) (notice c)])
      \<and> \<not> isLoading (handleExecuteQuery h True r2 s)"
  proof (intro impI, elim conjE)
    assume p: "pendingQuery s \<noteq> None" and f: "execution_fails r2"
    from p obtain q where q: "pendingQuery s = Some q" by blast
    from finish_execution_fails [OF f, of h "s\<lparr>isLoading := True\<rparr>"] obtain c where
      "handleExecuteQuery_finish h r2 (s\<lparr>isLoading := True\<rparr>) =
         (addMessage h (notice c) (s\<lparr>isLoading := True\<rparr>))\<lparr>isLoading := False, pendingQuery := None\<rparr>"
      by blast
    then have e: "handleExecuteQuery h True r2 s =
         (addMessage h (notice c) (s\<lparr>isLoading := True\<rparr>))\<lparr>isLoading := False, pendingQuery := None\<rparr>"
      by (simp add: handleExecuteQuery_approved(2) [OF q])
    have "messages (handleExecuteQuery h True r2 s) =
             messages s @ [newMessage h (length (messages s)) (notice c)]"
      by (simp add: e messages_addMessage)
    moreover have "\<not> isLoading (handleExecuteQuery h True r2 s)" by (simp add: e)
    ultimately show "(\<exists>c. messages (handleExecuteQuery h True r2 s) =
             messages s @ [newMessage h (length (messages s)) (notice c)])
      \<and> \<not> isLoading (handleExecuteQuery h True r2 s)" by blast
  qed
  have c: "(\<forall>st d. r0 = Responded st (Some d) \<longrightarrow>
          \<not> (hr_status d = js ''healthy'' \<and> hr_mongodb_connected d)) \<longrightarrow>
      (\<exists>c. messages (checkConnection h r0 s) =
             messages s @ [newMessage h (length (messages s)) (notice c)])
      \<and> isLoading (checkConnection h r0 s) = isLoading s"
    by (cases r0)
      (auto simp add: checkConnection_def checkConnection_try_def messages_addMessage
        fields_addMessage split: option.splits)
  have d: "ok_body r1 = None \<longrightarrow> isl (handleSendMessage_try h r1 s)"
    by (auto simp add: ok_body_def handleSendMessage_try_def
        split: fetch_result.splits option.splits if_splits)
  have e: "ok_body r2 = None \<longrightarrow> isl (handleExecuteQuery_try h r2 s)"
    by (auto simp add: ok_body_def handleExecuteQuery_try_def
        split: fetch_result.splits option.splits if_splits)
  from a b c d e show ?thesis by blast
qed

theorem failure_appends_one_notice_witness:
  "trim (input asking_state) \<noteq> [] \<and> \<not> isLoading asking_state
   \<and> connectionStatus asking_state = Connected
   \<and> generation_fails (Responded 500 (Some chat_ok))
   \<and> map m_type (messages (handleSendMessage demo_host (Responded 500 (Some chat_ok))
        asking_state)) = [Bot, User, Bot]
   \<and> \<not> isLoading (handleSendMessage demo_host (Responded 500 (Some chat_ok)) asking_state)
   \<and> pendingQuery proposed_state \<noteq> None
   \<and> execution_fails (Responded 200 (Some execute_failed))
   \<and> map m_type (messages (handleExecuteQuery demo_host True
        (Responded 200 (Some execute_failed)) proposed_state)) = [Bot, User, Query, Bot]
   \<and> \<not> isLoading (handleExecuteQuery demo_host True (Responded 200 (Some execute_failed))
        proposed_state)
   \<and> map m_type (messages (checkConnection demo_host (Responded 503 (Some degraded))
        (initial 0))) = [Bot, Bot]
   \<and> isl (handleSendMessage_try demo_host (Responded 500 (Some chat_ok)) asking_state)"
proof -
  let ?r1 = "Responded 500 (Some chat_ok) :: chat_response fetch_result"
  let ?r2 = "Responded 200 (Some execute_failed) :: execute_response fetch_result"
  let ?r0 = "Responded 503 (Some degraded) :: health_response fetch_result"
  have a: "trim (input asking_state) \<noteq> []" "\<not> isLoading asking_state"
    "connectionStatus asking_state = Connected"
    by (simp_all add: asking_state_fields trim_example)
  have p: "pendingQuery proposed_state \<noteq> None" by (simp add: proposed_state_fields)
  have g: "generation_fails ?r1" by (rule fails_examples(2))
  have e: "execution_fails ?r2" by (rule fails_examples(6))
  have o: "ok_body ?r1 = None" by (simp add: ok_body_def ok_def)
  have u: "\<forall>st d. ?r0 = Responded st (Some d) \<longrightarrow>
             \<not> (hr_status d = js ''healthy'' \<and> hr_mongodb_connected d)"
    by (simp add: degraded_def)
  note t1 = failure_appends_one_notice [of asking_state ?r1 demo_host ?r2 ?r0]
  note t2 = failure_appends_one_notice [of proposed_state ?r1 demo_host ?r2 ?r0]
  note t3 = failure_appends_one_notice [of "initial 0" ?r1 demo_host ?r2 ?r0]
  from t1 a g obtain c1 where
    m1: "messages (handleSendMessage demo_host ?r1 asking_state) =
           messages asking_state @
           [newMessage demo_host (length (messages asking_state))
              \<lparr>d_type = User, d_content = trim (input asking_state), d_query = None,
               d_result = None, d_answer = None\<rparr>,
            newMessage demo_host (Suc (length (messages asking_state))) (notice c1)]"
    and l1: "\<not> isLoading (handleSendMessage demo_host ?r1 asking_state)"
    by blast
  from t1 o have i1: "isl (handleSendMessage_try demo_host ?r1 asking_state)" by blast
  from t2 p e obtain c2 where
    m2: "messages (handleExecuteQuery demo_host True ?r2 proposed_state) =
           messages proposed_state @
           [newMessage demo_host (length (messages proposed_state)) (notice c2)]"
    and l2: "\<not> isLoading (handleExecuteQuery demo_host True ?r2 proposed_state)"
    by blast
  from t3 u obtain c3 where
    m3: "messages (checkConnection demo_host ?r0 (initial 0)) =
           messages (initial 0) @
           [newMessage demo_host (length (messages (initial 0))) (notice c3)]"
    by blast
  have k1: "map m_type (messages (handleSendMessage demo_host ?r1 asking_state))
              = [Bot, User, Bot]"
    by (simp only: m1) (simp add: asking_state_fields initial_def newMessage_def notice_def)
  have k2: "map m_type (messages (handleExecuteQuery demo_host True ?r2 proposed_state))
              = [Bot, User, Query, Bot]"
    by (simp only: m2) (simp add: proposed_state_types newMessage_def notice_def)
  have k3: "map m_type (messages (checkConnection demo_host ?r0 (initial 0))) = [Bot, Bot]"
    by (simp only: m3) (simp add: initial_def newMessage_def notice_def)
  from a g k1 l1 p e k2 l2 k3 i1 show ?thesis by blast
qed

section \<open>Submitting a question\<close>

text \<open>
  C7, as the claim states it, fails when a proposal is already outstanding: a failed
  generation does not touch \<^verbatim>\<open>pendingQuery\<close>, so the earlier proposal is still set
  after the call.
\<close>

theorem stale_proposal_counterexample:
  "trim (input asking_again_state) \<noteq> [] \<and> \<not> isLoading asking_again_state
   \<and> connectionStatus asking_again_state = Connected
   \<and> pendingQuery asking_again_state \<noteq> None
   \<and> length (messages (handleSendMessage demo_host Rejected asking_again_state))
       = length (messages asking_again_state) + 2
   \<and> pendingQuery (handleSendMessage demo_host Rejected asking_again_state) \<noteq> None"
  by (simp add: asking_again_state_fields proposed_state_fields trim_example2
      handleSendMessage_def handleSendMessage_start_def handleSendMessage_finish_def
      handleSendMessage_try_def messages_addMessage fields_addMessage)

text \<open>
  C7, amended. A \<open>handleSendMessage\<close> call that passes its guard and whose generation
  call ends in a reported failure or a transport error appends the user's question and
  one notice describing the error, and leaves \<^verbatim>\<open>pendingQuery\<close> as it was: unset if it
  was unset, and still holding the earlier proposal if one was outstanding. The notice
  is the apology text of the \<^verbatim>\<open>catch\<close> block when the fetch rejects, the status is not
  ok or the body does not parse, and otherwise "Error: " followed by the error reported
  by the backend, or by "Failed to generate query" when that is absent or empty.
\<close>

theorem generation_failure_keeps_pending:
  assumes "trim (input s) \<noteq> []" and "\<not> isLoading s" and "connectionStatus s = Connected"
    and "generation_fails r"
  shows "pendingQuery (handleSendMessage h r s) = pendingQuery s
         \<and> messages (handleSendMessage h r s) =
             messages s @
             [\<lparr>m_id = fst (fresh h (length (messages s))), m_type = User,
               m_content = trim (input s),
               m_timestamp = snd (fresh h (length (messages s))),
               m_query = None, m_result = None, m_answer = None\<rparr>,
              \<lparr>m_id = fst (fresh h (Suc (length (messages s)))), m_type = Bot,
               m_content =
                 (let apology = [0x274C]
                    @ js '' Sorry, I encountered an error while processing your request. ''
                    @ js ''Please check if the server is running and try again.''
                  in case r of
                       Rejected \<Rightarrow> apology
                     | Responded st body \<Rightarrow>
                         if 200 \<le> st \<and> st \<le> 299 then
                           (case body of
                              None \<Rightarrow> apology
                            | Some d \<Rightarrow>
                                [0x274C] @ js '' Error: ''
                                @ (case cr_error d of
                                     None \<Rightarrow> js ''Failed to generate query''
                                   | Some e \<Rightarrow>
                                       if e = [] then js ''Failed to generate query'' else e))
                         else apology),
               m_timestamp = snd (fresh h (Suc (length (messages s)))),
               m_query = None, m_result = None, m_answer = None\<rparr>]"
proof -
  let ?s1 = "addMessage h \<lparr>d_type = User, d_content = trim (input s), d_query = None,
                            d_result = None, d_answer = None\<rparr>
               (s\<lparr>input := [], isLoading := True\<rparr>)"
  note e = handleSendMessage_accepted(2) [OF assms(1-3), of h r]
  show ?thesis
  proof (cases r)
    case Rejected
    show ?thesis
      by (simp only: e)
        (simp add: Rejected handleSendMessage_finish_def handleSendMessage_try_def
          addMessage_def newMessage_def notice_def processing_error_notice_def Let_def)
  next
    case (Responded st body)
    show ?thesis
    proof (cases "ok st")
      case False
      show ?thesis
        using False
        by (simp only: e)
          (auto simp add: Responded handleSendMessage_finish_def handleSendMessage_try_def
            addMessage_def newMessage_def notice_def processing_error_notice_def Let_def ok_def)
    next
      case True
      show ?thesis
      proof (cases body)
        case None
        show ?thesis
          using True
          by (simp only: e)
            (simp add: Responded None handleSendMessage_finish_def handleSendMessage_try_def
              addMessage_def newMessage_def notice_def processing_error_notice_def Let_def ok_def)
      next
        case (Some d)
        with assms(4) Responded True have f: "\<not> cr_success d"
          by (simp add: generation_fails_def ok_body_def)
        show ?thesis
          using True f
          by (simp only: e)
            (simp add: Responded Some handleSendMessage_finish_def handleSendMessage_try_def
              addMessage_def newMessage_def notice_def generate_error_content_def Let_def
              or_default_def ok_def split: option.split)
      qed
    qed
  qed
qed

theorem generation_failure_keeps_pending_witness:
  "trim (input asking_state) \<noteq> [] \<and> \<not> isLoading asking_state
   \<and> connectionStatus asking_state = Connected
   \<and> generation_fails (Responded 200 (Some chat_failed))
   \<and> pendingQuery (handleSendMessage demo_host (Responded 200 (Some chat_failed)) asking_state)
       = None
   \<and> messages (handleSendMessage demo_host (Responded 200 (Some chat_failed)) asking_state)
       = messages asking_state @
         [\<lparr>m_id = js ''m'', m_type = User, m_content = js ''Count orders by status'',
           m_timestamp = 1, m_query = None, m_result = None, m_answer = None\<rparr>,
          \<lparr>m_id = js ''m'', m_type = Bot,
           m_content = [0x274C] @ js '' Error: '' @ js ''no such collection'',
           m_timestamp = 2, m_query = None, m_result = None, m_answer = None\<rparr>]
   \<and> trim (input asking_again_state) \<noteq> [] \<and> \<not> isLoading asking_again_state
   \<and> connectionStatus asking_again_state = Connected
   \<and> generation_fails Rejected
   \<and> pendingQuery (handleSendMessage demo_host Rejected asking_again_state)
       = Some \<lparr>pq_question = js ''Count orders by status'',
               pq_query = js ''db.orders.aggregate(...)''\<rparr>
   \<and> messages (handleSendMessage demo_host Rejected asking_again_state)
       = messages asking_again_state @
         [\<lparr>m_id = js ''m'', m_type = User, m_content = js ''Count users'',
           m_timestamp = 3, m_query = None, m_result = None, m_answer = None\<rparr>,
          \<lparr>m_id = js ''m'', m_type = Bot,
           m_content = [0x274C]
             @ js '' Sorry, I encountered an error while processing your request. ''
             @ js ''Please check if the server is running and try again.'',
           m_timestamp = 4, m_query = None, m_result = None, m_answer = None\<rparr>]"
proof -
  have a: "trim (input asking_state) \<noteq> []" "\<not> isLoading asking_state"
    "connectionStatus asking_state = Connected"
    by (simp_all add: asking_state_fields trim_example)
  have b: "trim (input asking_again_state) \<noteq> []" "\<not> isLoading asking_again_state"
    "connectionStatus asking_again_state = Connected"
    by (simp_all add: asking_again_state_fields trim_example2)
  note g1 = fails_examples(3)
  note g2 = fails_examples(1)
  have la: "length (messages asking_state) = 1" by (simp add: asking_state_fields initial_def)
  have lb: "length (messages asking_again_state) = 3"
    by (simp add: asking_again_state_fields proposed_state_fields)
  note t1 = generation_failure_keeps_pending [OF a g1, of demo_host]
  note t2 = generation_failure_keeps_pending [OF b g2, of demo_host]
  from t1 have p1: "pendingQuery (handleSendMessage demo_host (Responded 200 (Some chat_failed))
      asking_state) = None"
    by (simp add: asking_state_fields)
  from t1 have m1: "messages (handleSendMessage demo_host (Responded 200 (Some chat_failed))
      asking_state)
       = messages asking_state @
         [\<lparr>m_id = js ''m'', m_type = User, m_content = js ''Count orders by status'',
           m_timestamp = 1, m_query = None, m_result = None, m_answer = None\<rparr>,
          \<lparr>m_id = js ''m'', m_type = Bot,
           m_content = [0x274C] @ js '' Error: '' @ js ''no such collection'',
           m_timestamp = 2, m_query = None, m_result = None, m_answer = None\<rparr>]"
    by (simp add: la demo_fresh asking_state_fields(2) trim_example chat_failed_def)
  from t2 have p2: "pendingQuery (handleSendMessage demo_host Rejected asking_again_state)
       = Some \<lparr>pq_question = js ''Count orders by status'',
               pq_query = js ''db.orders.aggregate(...)''\<rparr>"
    by (simp add: asking_again_state_fields proposed_state_fields)
  from t2 have m2: "messages (handleSendMessage demo_host Rejected asking_again_state)
       = messages asking_again_state @
         [\<lparr>m_id = js ''m'', m_type = User, m_content = js ''Count users'',
           m_timestamp = 3, m_query = None, m_result = None, m_answer = None\<rparr>,
          \<lparr>m_id = js ''m'', m_type = Bot,
           m_content = [0x274C]
             @ js '' Sorry, I encountered an error while processing your request. ''
             @ js ''Please check if the server is running and try again.'',
           m_timestamp = 4, m_query = None, m_result = None, m_answer = None\<rparr>]"
    by (simp add: lb demo_fresh asking_again_state_fields(2) trim_example2)
  show ?thesis by (intro conjI) (rule a b g1 g2 p1 m1 p2 m2)+
qed

text \<open>
  C9. On a reported generation success the proposal takes its question from the
  response of the generate endpoint, not from the trimmed input that was sent and
  logged as the user's question; an approval then sends that echoed question to the
  execute endpoint. When the backend echoes another question than the one typed, the
  question sent for execution differs from the one in the log.
\<close>

theorem proposal_takes_echoed_question:
  assumes "trim (input s) \<noteq> []" and "\<not> isLoading s" and "connectionStatus s = Connected"
    and "ok st" and "cr_success d"
  shows "handleSendMessage_start h s =
           (addMessage h \<lparr>d_type = User, d_content = trim (input s), d_query = None,
                          d_result = None, d_answer = None\<rparr>
              (s\<lparr>input := [], isLoading := True\<rparr>),
            Some (trim (input s)))
         \<and> messages (handleSendMessage h (Responded st (Some d)) s) =
             messages s @
             [newMessage h (length (messages s))
                \<lparr>d_type = User, d_content = trim (input s), d_query = None,
                 d_result = None, d_answer = None\<rparr>,
              newMessage h (Suc (length (messages s)))
                \<lparr>d_type = Query, d_content = generated_query_content (cr_query d),
                 d_query = Some (cr_query d), d_result = None, d_answer = None\<rparr>]
         \<and> pendingQuery (handleSendMessage h (Responded st (Some d)) s) =
             Some \<lparr>pq_question = cr_question d, pq_query = cr_query d\<rparr>
         \<and> snd (handleExecuteQuery_start h True (handleSendMessage h (Responded st (Some d)) s)) =
             Some \<lparr>pq_question = cr_question d, pq_query = cr_query d\<rparr>"
proof -
  have e: "handleSendMessage h (Responded st (Some d)) s =
      s\<lparr>messages := messages s @
             [newMessage h (length (messages s))
                \<lparr>d_type = User, d_content = trim (input s), d_query = None,
                 d_result = None, d_answer = None\<rparr>,
              newMessage h (Suc (length (messages s)))
                \<lparr>d_type = Query, d_content = generated_query_content (cr_query d),
                 d_query = Some (cr_query d), d_result = None, d_answer = None\<rparr>],
         input := [],
         pendingQuery := Some \<lparr>pq_question = cr_question d, pq_query = cr_query d\<rparr>\<rparr>"
    using assms
    by (simp add: handleSendMessage_accepted(2) handleSendMessage_finish_def
        handleSendMessage_try_def addMessage_def)
  show ?thesis
    using assms(1-3)
    by (simp add: handleSendMessage_accepted(1) e handleExecuteQuery_start_def)
qed

theorem proposal_takes_echoed_question_witness:
  "trim (input asking_state) \<noteq> [] \<and> \<not> isLoading asking_state
   \<and> connectionStatus asking_state = Connected \<and> ok 200 \<and> cr_success chat_echo_other
   \<and> snd (handleSendMessage_start demo_host asking_state) = Some (js ''Count orders by status'')
   \<and> m_type (messages (handleSendMessage demo_host (Responded 200 (Some chat_echo_other))
        asking_state) ! 1) = User
   \<and> m_content (messages (handleSendMessage demo_host (Responded 200 (Some chat_echo_other))
        asking_state) ! 1) = js ''Count orders by status''
   \<and> snd (handleExecuteQuery_start demo_host True
        (handleSendMessage demo_host (Responded 200 (Some chat_echo_other)) asking_state))
       = Some \<lparr>pq_question = js ''count orders'', pq_query = js ''db.orders.aggregate(...)''\<rparr>
   \<and> js ''count orders'' \<noteq> js ''Count orders by status''"
proof -
  have a: "trim (input asking_state) \<noteq> []" "\<not> isLoading asking_state"
    "connectionStatus asking_state = Connected"
    by (simp_all add: asking_state_fields trim_example)
  have o: "ok 200" by (simp add: ok_def)
  have c: "cr_success chat_echo_other" by (simp add: chat_echo_other_def)
  have n: "js ''count orders'' \<noteq> js ''Count orders by status''" by (simp add: js_def)
  show ?thesis
    using proposal_takes_echoed_question [OF a o c, of demo_host] a o c n
    by (simp add: asking_state_fields trim_example chat_echo_other_def newMessage_def
        initial_def nth_append)
qed

section \<open>Executions and proposals along a session\<close>

lemma history_ok_appended:
  assumes ok: "history_ok c"
    and ms: "messages (ui c') = messages (ui c) @ ms"
    and ty: "\<forall>m\<in>set ms. m_type m \<noteq> Result"
    and pr: "proposal_of c' = proposal_of c"
    and rq: "request_of c' = request_of c"
    and fl: "\<forall>p\<in>set (execute_inflight c').
              p \<in> set (execute_inflight c) \<or> pendingQuery (ui c) = Some p"
    and pq: "pendingQuery (ui c') = None \<or> pendingQuery (ui c') = pendingQuery (ui c)"
  shows "history_ok c'"
proof -
  let ?old = "messages (ui c)"
  from ok have
    i1: "\<And>j p. proposal_of c j = Some p \<Longrightarrow>
           j < length ?old \<and> m_type (?old ! j) = Query \<and> m_query (?old ! j) = Some (pq_query p)"
    and i2: "\<And>i p. request_of c i = Some p \<Longrightarrow> \<exists>j<i. proposal_of c j = Some p"
    and i3: "\<And>i. i < length ?old \<Longrightarrow> m_type (?old ! i) = Result \<Longrightarrow> request_of c i \<noteq> None"
    and i4: "\<And>p. p \<in> set (execute_inflight c) \<Longrightarrow> \<exists>j. proposal_of c j = Some p"
    and i5: "\<And>p. pendingQuery (ui c) = Some p \<Longrightarrow> \<exists>j. proposal_of c j = Some p"
    unfolding history_ok_def by blast+
  have 1: "\<forall>j p. proposal_of c' j = Some p \<longrightarrow>
        j < length (messages (ui c')) \<and> m_type (messages (ui c') ! j) = Query
        \<and> m_query (messages (ui c') ! j) = Some (pq_query p)"
  proof (intro allI impI)
    fix j p assume "proposal_of c' j = Some p"
    then have "proposal_of c j = Some p" by (simp add: pr)
    from i1 [OF this] show "j < length (messages (ui c')) \<and> m_type (messages (ui c') ! j) = Query
        \<and> m_query (messages (ui c') ! j) = Some (pq_query p)"
      by (simp add: ms nth_append)
  qed
  have 2: "\<forall>i p. request_of c' i = Some p \<longrightarrow> (\<exists>j<i. proposal_of c' j = Some p)"
    using i2 by (simp add: pr rq)
  have 3: "\<forall>i<length (messages (ui c')). m_type (messages (ui c') ! i) = Result \<longrightarrow>
          request_of c' i \<noteq> None"
  proof (intro allI impI)
    fix i assume a: "i < length (messages (ui c'))" and b: "m_type (messages (ui c') ! i) = Result"
    show "request_of c' i \<noteq> None"
    proof (cases "i < length ?old")
      case True
      with b have "m_type (?old ! i) = Result" by (simp add: ms nth_append)
      with True show ?thesis by (simp add: rq i3)
    next
      case False
      with a have "messages (ui c') ! i \<in> set ms" by (simp add: ms nth_append)
      with ty b show ?thesis by blast
    qed
  qed
  have 4: "\<forall>p \<in> set (execute_inflight c'). \<exists>j. proposal_of c' j = Some p"
    using fl i4 i5 by (auto simp add: pr)
  have 5: "\<forall>p. pendingQuery (ui c') = Some p \<longrightarrow> (\<exists>j. proposal_of c' j = Some p)"
    using pq i5 by (auto simp add: pr)
  from 1 2 3 4 5 show ?thesis unfolding history_ok_def by blast
qed

lemma history_ok_proposed:
  assumes ok: "history_ok c"
    and ms: "messages (ui c') = messages (ui c) @ [m]"
    and ty: "m_type m = Query" and qu: "m_query m = Some (pq_query p)"
    and pr: "proposal_of c' = (proposal_of c)(length (messages (ui c)) \<mapsto> p)"
    and rq: "request_of c' = request_of c"
    and fl: "set (execute_inflight c') \<subseteq> set (execute_inflight c)"
    and pq: "pendingQuery (ui c') = Some p"
  shows "history_ok c'"
proof -
  let ?old = "messages (ui c)"
  let ?n = "length ?old"
  from ok have
    i1: "\<And>j p. proposal_of c j = Some p \<Longrightarrow>
           j < length ?old \<and> m_type (?old ! j) = Query \<and> m_query (?old ! j) = Some (pq_query p)"
    and i2: "\<And>i p. request_of c i = Some p \<Longrightarrow> \<exists>j<i. proposal_of c j = Some p"
    and i3: "\<And>i. i < length ?old \<Longrightarrow> m_type (?old ! i) = Result \<Longrightarrow> request_of c i \<noteq> None"
    and i4: "\<And>p. p \<in> set (execute_inflight c) \<Longrightarrow> \<exists>j. proposal_of c j = Some p"
    unfolding history_ok_def by blast+
  have keep: "\<And>j q. proposal_of c j = Some q \<Longrightarrow> proposal_of c' j = Some q"
  proof -
    fix j q assume a: "proposal_of c j = Some q"
    then have "j < ?n" using i1 by blast
    with a show "proposal_of c' j = Some q" by (simp add: pr)
  qed
  have 1: "\<forall>j q. proposal_of c' j = Some q \<longrightarrow>
        j < length (messages (ui c')) \<and> m_type (messages (ui c') ! j) = Query
        \<and> m_query (messages (ui c') ! j) = Some (pq_query q)"
  proof (intro allI impI)
    fix j q assume a: "proposal_of c' j = Some q"
    show "j < length (messages (ui c')) \<and> m_type (messages (ui c') ! j) = Query
        \<and> m_query (messages (ui c') ! j) = Some (pq_query q)"
    proof (cases "j = ?n")
      case True
      with a have "q = p" by (simp add: pr)
      with True ty qu show ?thesis by (simp add: ms)
    next
      case False
      with a have "proposal_of c j = Some q" by (simp add: pr)
      from i1 [OF this] show ?thesis by (simp add: ms nth_append)
    qed
  qed
  have 2: "\<forall>i q. request_of c' i = Some q \<longrightarrow> (\<exists>j<i. proposal_of c' j = Some q)"
    using i2 keep by (metis rq)
  have 3: "\<forall>i<length (messages (ui c')). m_type (messages (ui c') ! i) = Result \<longrightarrow>
          request_of c' i \<noteq> None"
  proof (intro allI impI)
    fix i assume a: "i < length (messages (ui c'))" and b: "m_type (messages (ui c') ! i) = Result"
    show "request_of c' i \<noteq> None"
    proof (cases "i < ?n")
      case True
      with b have "m_type (?old ! i) = Result" by (simp add: ms nth_append)
      with True show ?thesis by (simp add: rq i3)
    next
      case False
      with a have "messages (ui c') ! i = m" by (simp add: ms nth_append)
      with ty b show ?thesis by simp
    qed
  qed
  have 4: "\<forall>q \<in> set (execute_inflight c'). \<exists>j. proposal_of c' j = Some q"
    using fl i4 keep by blast
  have 5: "\<forall>q. pendingQuery (ui c') = Some q \<longrightarrow> (\<exists>j. proposal_of c' j = Some q)"
    by (auto simp add: pq pr)
  from 1 2 3 4 5 show ?thesis unfolding history_ok_def by blast
qed

lemma history_ok_executed:
  assumes ok: "history_ok c"
    and ms: "messages (ui c') = messages (ui c) @ [m1, m2]"
    and ty: "m_type m2 \<noteq> Result"
    and pr: "proposal_of c' = proposal_of c"
    and rq: "request_of c' = (request_of c)(length (messages (ui c)) \<mapsto> p)"
    and mem: "p \<in> set (execute_inflight c)"
    and fl: "set (execute_inflight c') \<subseteq> set (execute_inflight c)"
    and pq: "pendingQuery (ui c') = None"
  shows "history_ok c'"
proof -
  let ?old = "messages (ui c)"
  let ?n = "length ?old"
  from ok have
    i1: "\<And>j p. proposal_of c j = Some p \<Longrightarrow>
           j < length ?old \<and> m_type (?old ! j) = Query \<and> m_query (?old ! j) = Some (pq_query p)"
    and i2: "\<And>i p. request_of c i = Some p \<Longrightarrow> \<exists>j<i. proposal_of c j = Some p"
    and i3: "\<And>i. i < length ?old \<Longrightarrow> m_type (?old ! i) = Result \<Longrightarrow> request_of c i \<noteq> None"
    and i4: "\<And>p. p \<in> set (execute_inflight c) \<Longrightarrow> \<exists>j. proposal_of c j = Some p"
    unfolding history_ok_def by blast+
  have 1: "\<forall>j q. proposal_of c' j = Some q \<longrightarrow>
        j < length (messages (ui c')) \<and> m_type (messages (ui c') ! j) = Query
        \<and> m_query (messages (ui c') ! j) = Some (pq_query q)"
  proof (intro allI impI)
    fix j q assume "proposal_of c' j = Some q"
    then have "proposal_of c j = Some q" by (simp add: pr)
    from i1 [OF this] show "j < length (messages (ui c')) \<and> m_type (messages (ui c') ! j) = Query
        \<and> m_query (messages (ui c') ! j) = Some (pq_query q)"
      by (simp add: ms nth_append)
  qed
  have 2: "\<forall>i q. request_of c' i = Some q \<longrightarrow> (\<exists>j<i. proposal_of c' j = Some q)"
  proof (intro allI impI)
    fix i q assume a: "request_of c' i = Some q"
    show "\<exists>j<i. proposal_of c' j = Some q"
    proof (cases "i = ?n")
      case True
      with a have "q = p" by (simp add: rq)
      from i4 [OF mem] obtain j where j: "proposal_of c j = Some p" by blast
      with i1 have "j < ?n" by blast
      with j True \<open>q = p\<close> show ?thesis by (auto simp add: pr)
    next
      case False
      with a have "request_of c i = Some q" by (simp add: rq)
      from i2 [OF this] show ?thesis by (simp add: pr)
    qed
  qed
  have 3: "\<forall>i<length (messages (ui c')). m_type (messages (ui c') ! i) = Result \<longrightarrow>
          request_of c' i \<noteq> None"
  proof (intro allI impI)
    fix i assume a: "i < length (messages (ui c'))" and b: "m_type (messages (ui c') ! i) = Result"
    show "request_of c' i \<noteq> None"
    proof (cases "i < ?n")
      case True
      with b have "m_type (?old ! i) = Result" by (simp add: ms nth_append)
      with True have "request_of c i \<noteq> None" by (simp add: i3)
      with True show ?thesis by (simp add: rq)
    next
      case False
      show ?thesis
      proof (cases "i = ?n")
        case True
        then show ?thesis by (simp add: rq)
      next
        case F: False
        with False a have "i = Suc ?n" by (simp add: ms)
        then have "messages (ui c') ! i = m2" by (simp add: ms nth_append)
        with ty b show ?thesis by simp
      qed
    qed
  qed
  have 4: "\<forall>q \<in> set (execute_inflight c'). \<exists>j. proposal_of c' j = Some q"
    using fl i4 by (auto simp add: pr)
  have 5: "\<forall>q. pendingQuery (ui c') = Some q \<longrightarrow> (\<exists>j. proposal_of c' j = Some q)"
    by (simp add: pq)
  from 1 2 3 4 5 show ?thesis unfolding history_ok_def by blast
qed

lemma checkConnection_effect:
  "\<exists>ms. messages (checkConnection h r s) = messages s @ ms \<and> (\<forall>m\<in>set ms. m_type m = Bot)"
  "pendingQuery (checkConnection h r s) = pendingQuery s"
  by (auto simp add: checkConnection_def checkConnection_try_def messages_addMessage
      fields_addMessage newMessage_def notice_def split: fetch_result.splits option.splits)

lemma handleSendMessage_start_effect:
  "\<exists>ms. messages (fst (handleSendMessage_start h s)) = messages s @ ms
        \<and> (\<forall>m\<in>set ms. m_type m = User)"
  "pendingQuery (fst (handleSendMessage_start h s)) = pendingQuery s"
  by (auto simp add: handleSendMessage_start_def messages_addMessage fields_addMessage
      newMessage_def)

lemma handleSendMessage_finish_failure:
  assumes "generation_fails r"
  shows "\<exists>ms. messages (handleSendMessage_finish h r s) = messages s @ ms
          \<and> (\<forall>m\<in>set ms. m_type m = Bot)"
    and "pendingQuery (handleSendMessage_finish h r s) = pendingQuery s"
proof -
  from finish_generation_fails [OF assms, of h s] obtain c where
    e: "handleSendMessage_finish h r s = (addMessage h (notice c) s)\<lparr>isLoading := False\<rparr>"
    by blast
  show "\<exists>ms. messages (handleSendMessage_finish h r s) = messages s @ ms
          \<and> (\<forall>m\<in>set ms. m_type m = Bot)"
    by (simp add: e messages_addMessage newMessage_def notice_def)
  show "pendingQuery (handleSendMessage_finish h r s) = pendingQuery s"
    by (simp add: e fields_addMessage)
qed

lemma ok_body_Some: "ok_body r = Some d \<longleftrightarrow> (\<exists>st. r = Responded st (Some d) \<and> ok st)"
  by (auto simp add: ok_body_def split: fetch_result.splits if_splits)

lemma handleSendMessage_finish_success:
  assumes "ok_body r = Some d" and "cr_success d"
  shows "messages (handleSendMessage_finish h r s) =
           messages s @
           [newMessage h (length (messages s))
              \<lparr>d_type = Query, d_content = generated_query_content (cr_query d),
               d_query = Some (cr_query d), d_result = None, d_answer = None\<rparr>]"
    and "pendingQuery (handleSendMessage_finish h r s) =
           Some \<lparr>pq_question = cr_question d, pq_query = cr_query d\<rparr>"
  using assms
  by (auto simp add: ok_body_Some handleSendMessage_finish_def handleSendMessage_try_def
      messages_addMessage)

lemma handleExecuteQuery_start_effect:
  "\<exists>ms. messages (fst (handleExecuteQuery_start h a s)) = messages s @ ms
        \<and> (\<forall>m\<in>set ms. m_type m = Bot)"
  "pendingQuery (fst (handleExecuteQuery_start h a s)) = None
   \<or> pendingQuery (fst (handleExecuteQuery_start h a s)) = pendingQuery s"
  "snd (handleExecuteQuery_start h a s) = Some p \<Longrightarrow> pendingQuery s = Some p"
  by (auto simp add: handleExecuteQuery_start_def messages_addMessage fields_addMessage
      newMessage_def notice_def split: option.splits if_splits)

lemma handleExecuteQuery_finish_failure:
  assumes "execution_fails r"
  shows "\<exists>ms. messages (handleExecuteQuery_finish h r s) = messages s @ ms
          \<and> (\<forall>m\<in>set ms. m_type m = Bot)"
proof -
  from finish_execution_fails [OF assms, of h s] obtain c where
    e: "handleExecuteQuery_finish h r s =
          (addMessage h (notice c) s)\<lparr>isLoading := False, pendingQuery := None\<rparr>"
    by blast
  show ?thesis by (simp add: e messages_addMessage newMessage_def notice_def)
qed

lemma pendingQuery_handleExecuteQuery_finish:
  "pendingQuery (handleExecuteQuery_finish h r s) = None"
  by (simp add: handleExecuteQuery_finish_def)

lemma handleExecuteQuery_finish_success:
  assumes "ok_body r = Some d" and "er_success d"
  shows "\<exists>m1 m2. messages (handleExecuteQuery_finish h r s) = messages s @ [m1, m2]
           \<and> m_type m1 = Result \<and> m_type m2 = Bot"
  using assms
  by (auto simp add: ok_body_Some handleExecuteQuery_finish_def handleExecuteQuery_try_def
      messages_addMessage newMessage_def)

lemma history_ok_initial: "history_ok (initial_config t0)"
  by (simp add: history_ok_def initial_config_def initial_def)

lemma history_ok_step:
  assumes ok: "history_ok c"
  shows "history_ok (step h a c)"
proof (cases a)
  case (SetInput t)
  show ?thesis
    by (rule history_ok_appended [OF ok, where ms = "[]"]) (simp_all add: SetInput)
next
  case (HealthSettles r)
  show ?thesis
  proof (cases "health_inflight c = 0")
    case True
    with HealthSettles ok show ?thesis by simp
  next
    case False
    from checkConnection_effect(1) [of h r "ui c"] obtain ms where
      m: "messages (checkConnection h r (ui c)) = messages (ui c) @ ms"
      and t: "\<forall>m\<in>set ms. m_type m = Bot" by blast
    show ?thesis
      by (rule history_ok_appended [OF ok, where ms = ms])
        (use False m t in \<open>simp_all add: HealthSettles checkConnection_effect(2)\<close>)
  qed
next
  case CallSendMessage
  obtain s' q where st: "handleSendMessage_start h (ui c) = (s', q)"
    by (cases "handleSendMessage_start h (ui c)")
  from handleSendMessage_start_effect(1) [of h "ui c"] st obtain ms where
    m: "messages s' = messages (ui c) @ ms" and t: "\<forall>m\<in>set ms. m_type m = User" by auto
  from handleSendMessage_start_effect(2) [of h "ui c"] st
  have p: "pendingQuery s' = pendingQuery (ui c)" by simp
  show ?thesis
    by (rule history_ok_appended [OF ok, where ms = ms])
      (use m t p st in \<open>auto simp add: CallSendMessage split: option.splits\<close>)
next
  case (ChatSettles q r)
  show ?thesis
  proof (cases "q \<in> set (chat_inflight c)")
    case False
    with ChatSettles ok show ?thesis by simp
  next
    case True
    show ?thesis
    proof (cases "generation_fails r")
      case f: True
      from handleSendMessage_finish_failure(1) [OF f, of h "ui c"] obtain ms where
        m: "messages (handleSendMessage_finish h r (ui c)) = messages (ui c) @ ms"
        and t: "\<forall>m\<in>set ms. m_type m = Bot" by blast
      note p = handleSendMessage_finish_failure(2) [OF f, of h "ui c"]
      from f have g: "proposal_of (step h a c) = proposal_of c"
        using True by (auto simp add: ChatSettles generation_fails_def split: option.splits)
      show ?thesis
        by (rule history_ok_appended [OF ok, where ms = ms])
          (use True m t p g in \<open>simp_all add: ChatSettles\<close>)
    next
      case False
      then obtain d where d: "ok_body r = Some d" and sc: "cr_success d"
        by (auto simp add: generation_fails_def split: option.splits)
      note m = handleSendMessage_finish_success(1) [OF d sc, of h "ui c"]
      note p = handleSendMessage_finish_success(2) [OF d sc, of h "ui c"]
      show ?thesis
        by (rule history_ok_proposed [OF ok,
              where p = "\<lparr>pq_question = cr_question d, pq_query = cr_query d\<rparr>"
                and m = "newMessage h (length (messages (ui c)))
                  \<lparr>d_type = Query, d_content = generated_query_content (cr_query d),
                   d_query = Some (cr_query d), d_result = None, d_answer = None\<rparr>"])
          (use True m p d sc in \<open>simp_all add: ChatSettles newMessage_def\<close>)
    qed
  qed
next
  case (CallExecuteQuery approve)
  obtain s' q where st: "handleExecuteQuery_start h approve (ui c) = (s', q)"
    by (cases "handleExecuteQuery_start h approve (ui c)")
  from handleExecuteQuery_start_effect(1) [of h approve "ui c"] st obtain ms where
    m: "messages s' = messages (ui c) @ ms" and t: "\<forall>m\<in>set ms. m_type m = Bot" by auto
  from handleExecuteQuery_start_effect(2) [of h approve "ui c"] st
  have p: "pendingQuery s' = None \<or> pendingQuery s' = pendingQuery (ui c)" by simp
  from handleExecuteQuery_start_effect(3) [of h approve "ui c"] st
  have e: "\<And>x. q = Some x \<Longrightarrow> pendingQuery (ui c) = Some x" by simp
  show ?thesis
    by (rule history_ok_appended [OF ok, where ms = ms])
      (use m t p e st in \<open>auto simp add: CallExecuteQuery split: option.splits\<close>)
next
  case (ExecuteSettles p r)
  show ?thesis
  proof (cases "p \<in> set (execute_inflight c)")
    case False
    with ExecuteSettles ok show ?thesis by simp
  next
    case True
    have sub: "set (remove1 p (execute_inflight c)) \<subseteq> set (execute_inflight c)"
      by (rule set_remove1_subset)
    show ?thesis
    proof (cases "execution_fails r")
      case f: True
      from handleExecuteQuery_finish_failure [OF f, of h "ui c"] obtain ms where
        m: "messages (handleExecuteQuery_finish h r (ui c)) = messages (ui c) @ ms"
        and t: "\<forall>m\<in>set ms. m_type m = Bot" by blast
      from f have g: "request_of (step h a c) = request_of c"
        using True by (auto simp add: ExecuteSettles execution_fails_def split: option.splits)
      show ?thesis
        by (rule history_ok_appended [OF ok, where ms = ms])
          (use True m t g sub in
            \<open>auto simp add: ExecuteSettles pendingQuery_handleExecuteQuery_finish\<close>)
    next
      case False
      then obtain d where d: "ok_body r = Some d" and sc: "er_success d"
        by (auto simp add: execution_fails_def split: option.splits)
      from handleExecuteQuery_finish_success [OF d sc, of h "ui c"] obtain m1 m2 where
        m: "messages (handleExecuteQuery_finish h r (ui c)) = messages (ui c) @ [m1, m2]"
        and t: "m_type m2 = Bot" by blast
      show ?thesis
        by (rule history_ok_executed [OF ok, where p = p and ?m1.0 = m1 and ?m2.0 = m2])
          (use True m t d sc sub in
            \<open>auto simp add: ExecuteSettles pendingQuery_handleExecuteQuery_finish\<close>)
    qed
  qed
qed

lemma history_ok_run: "history_ok c \<Longrightarrow> history_ok (run h as c)"
  by (induction as arbitrary: c) (simp_all add: history_ok_step)

text \<open>
  C1. In every configuration that a session reaches from the initial one, by any
  sequence of handler calls and settling fetches, every \<open>Result\<close> message of the log
  was appended for a request sent to the execute endpoint, and strictly earlier in the
  same log there is a \<open>Query\<close> message that carries the query string of that request
  and was appended together with a proposal equal to the request, question and query.
  The same holds of every request still in flight: nothing is sent for execution
  without a proposal having existed for it.
\<close>

theorem execution_preceded_by_proposal:
  assumes "c = run h as (initial_config t0)"
  shows "(\<forall>i<length (messages (ui c)). m_type (messages (ui c) ! i) = Result \<longrightarrow>
            (\<exists>p j. request_of c i = Some p \<and> j < i \<and> proposal_of c j = Some p
                   \<and> m_type (messages (ui c) ! j) = Query
                   \<and> m_query (messages (ui c) ! j) = Some (pq_query p)))
         \<and> (\<forall>p\<in>set (execute_inflight c).
              \<exists>j<length (messages (ui c)). proposal_of c j = Some p
                   \<and> m_type (messages (ui c) ! j) = Query
                   \<and> m_query (messages (ui c) ! j) = Some (pq_query p))"
proof -
  have ok: "history_ok c" unfolding assms by (rule history_ok_run [OF history_ok_initial])
  then have
    i1: "\<And>j p. proposal_of c j = Some p \<Longrightarrow>
           j < length (messages (ui c)) \<and> m_type (messages (ui c) ! j) = Query
           \<and> m_query (messages (ui c) ! j) = Some (pq_query p)"
    and i2: "\<And>i p. request_of c i = Some p \<Longrightarrow> \<exists>j<i. proposal_of c j = Some p"
    and i3: "\<And>i. i < length (messages (ui c)) \<Longrightarrow> m_type (messages (ui c) ! i) = Result
           \<Longrightarrow> request_of c i \<noteq> None"
    and i4: "\<And>p. p \<in> set (execute_inflight c) \<Longrightarrow> \<exists>j. proposal_of c j = Some p"
    unfolding history_ok_def by blast+
  have a: "\<forall>i<length (messages (ui c)). m_type (messages (ui c) ! i) = Result \<longrightarrow>
            (\<exists>p j. request_of c i = Some p \<and> j < i \<and> proposal_of c j = Some p
                   \<and> m_type (messages (ui c) ! j) = Query
                   \<and> m_query (messages (ui c) ! j) = Some (pq_query p))"
  proof (intro allI impI)
    fix i assume "i < length (messages (ui c))" and "m_type (messages (ui c) ! i) = Result"
    from i3 [OF this] obtain p where p: "request_of c i = Some p" by blast
    from i2 [OF p] obtain j where j: "j < i" "proposal_of c j = Some p" by blast
    from i1 [OF j(2)] p j
    show "\<exists>p j. request_of c i = Some p \<and> j < i \<and> proposal_of c j = Some p
                   \<and> m_type (messages (ui c) ! j) = Query
                   \<and> m_query (messages (ui c) ! j) = Some (pq_query p)" by blast
  qed
  have b: "\<forall>p\<in>set (execute_inflight c).
              \<exists>j<length (messages (ui c)). proposal_of c j = Some p
                   \<and> m_type (messages (ui c) ! j) = Query
                   \<and> m_query (messages (ui c) ! j) = Some (pq_query p)"
  proof
    fix p assume "p \<in> set (execute_inflight c)"
    from i4 [OF this] obtain j where j: "proposal_of c j = Some p" by blast
    from i1 [OF j] j
    show "\<exists>j<length (messages (ui c)). proposal_of c j = Some p
                   \<and> m_type (messages (ui c) ! j) = Query
                   \<and> m_query (messages (ui c) ! j) = Some (pq_query p)" by blast
  qed
  from a b show ?thesis by blast
qed

theorem execution_preceded_by_proposal_witness:
  "map m_type (messages (ui (run demo_host demo_session (initial_config 0))))
     = [Bot, User, Query, Result, Bot]
   \<and> request_of (run demo_host demo_session (initial_config 0)) 3
     = Some \<lparr>pq_question = js ''Count orders by status'',
             pq_query = js ''db.orders.aggregate(...)''\<rparr>
   \<and> (\<exists>p j. request_of (run demo_host demo_session (initial_config 0)) 3 = Some p \<and> j < 3
          \<and> proposal_of (run demo_host demo_session (initial_config 0)) j = Some p
          \<and> m_type (messages (ui (run demo_host demo_session (initial_config 0))) ! j) = Query
          \<and> m_query (messages (ui (run demo_host demo_session (initial_config 0))) ! j)
              = Some (pq_query p))"
proof -
  let ?c = "run demo_host demo_session (initial_config 0)"
  have o: "ok 200" by (simp add: ok_def)
  have e: "er_success execute_empty" by (simp add: execute_empty_def)
  have m: "messages (ui ?c) =
             messages (handleExecuteQuery demo_host True (Responded 200 (Some execute_empty))
               proposed_state)"
    by (simp add: demo_run)
  have t: "map m_type (messages (ui ?c)) = [Bot, User, Query, Result, Bot]"
    by (simp only: m execute_success_appends_types)
  have r: "request_of ?c 3 = Some \<lparr>pq_question = js ''Count orders by status'',
             pq_query = js ''db.orders.aggregate(...)''\<rparr>"
    by (simp add: demo_run)
  have "length (map m_type (messages (ui ?c))) = 5" by (simp only: t) simp
  then have l: "3 < length (messages (ui ?c))" by simp
  have "map m_type (messages (ui ?c)) ! 3 = Result" by (simp only: t) simp
  with l have k: "m_type (messages (ui ?c) ! 3) = Result" by simp
  note th = execution_preceded_by_proposal [OF refl, of demo_host demo_session 0]
  from th have "\<forall>i<length (messages (ui ?c)). m_type (messages (ui ?c) ! i) = Result \<longrightarrow>
            (\<exists>p j. request_of ?c i = Some p \<and> j < i \<and> proposal_of ?c j = Some p
                   \<and> m_type (messages (ui ?c) ! j) = Query
                   \<and> m_query (messages (ui ?c) ! j) = Some (pq_query p))"
    by (rule conjunct1)
  with l k
  have "\<exists>p j. request_of ?c 3 = Some p \<and> j < 3 \<and> proposal_of ?c j = Some p
          \<and> m_type (messages (ui ?c) ! j) = Query
          \<and> m_query (messages (ui ?c) ! j) = Some (pq_query p)"
    by blast
  with t r show ?thesis by blast
qed

end
